theory Spec2Isabelle
  imports Main "HOL-Library.Sublist"
begin

section \<open>Python strings\<close>

text \<open>
  A Python \<open>str\<close> is a sequence of code points. It is modelled as a \<open>string\<close> holding
  its UTF-8 encoding: an ASCII character is one byte, a code point beyond ASCII is a lead
  byte followed by continuation bytes (the bytes \<open>0x80\<close> to \<open>0xBF\<close>). \<open>code_points\<close>
  splits the bytes back into code points. Substring and prefix tests on UTF-8 text agree
  with the tests on code points; the length and the slices of Python count code points.
\<close>

definition is_continuation :: "char \<Rightarrow> bool" where
  "is_continuation c = (digit7 c \<and> \<not> digit6 c)"

function code_points :: "string \<Rightarrow> string list" where
  "code_points [] = []"
| "code_points (c # cs) =
     (c # takeWhile is_continuation cs) # code_points (dropWhile is_continuation cs)"
  by pat_completeness auto
termination
  by (relation "measure length") (auto simp: less_Suc_eq_le length_dropWhile_le)

text \<open>A code point is ASCII when it is one byte with the top bit clear.\<close>

definition is_ascii :: "string \<Rightarrow> bool" where
  "is_ascii cp = (case cp of [c] \<Rightarrow> \<not> digit7 c | _ \<Rightarrow> False)"

text \<open>\<open>len(s)\<close> and the slice \<open>s[k:]\<close>.\<close>

definition len :: "string \<Rightarrow> nat" where
  "len s = length (code_points s)"

definition slice_from :: "nat \<Rightarrow> string \<Rightarrow> string" where
  "slice_from k s = concat (drop k (code_points s))"

definition ascii_uppercase :: string where
  "ascii_uppercase = ''ABCDEFGHIJKLMNOPQRSTUVWXYZ''"

definition ascii_lowercase :: string where
  "ascii_lowercase = ''abcdefghijklmnopqrstuvwxyz''"

definition lower_char :: "char \<Rightarrow> char" where
  "lower_char c = (case map_of (zip ascii_uppercase ascii_lowercase) c of None \<Rightarrow> c | Some d \<Rightarrow> d)"

definition upper_char :: "char \<Rightarrow> char" where
  "upper_char c = (case map_of (zip ascii_lowercase ascii_uppercase) c of None \<Rightarrow> c | Some d \<Rightarrow> d)"

text \<open>
  The case mappings of the code points beyond ASCII come from the Unicode database of
  the Python runtime, which is not part of the repository: they are a parameter of the
  model. Each field is given the text before the code point, the code point, and the
  text after it (the lowercase of a capital sigma depends on its neighbours), and yields
  the mapped text, which may be longer than one code point and may be ASCII (the Kelvin
  sign lowercases to \<open>k\<close>, the sharp s uppercases to \<open>SS\<close>).
\<close>

record unicode =
  lower_nonascii :: "string \<Rightarrow> string \<Rightarrow> string \<Rightarrow> string"
  upper_nonascii :: "string \<Rightarrow> string \<Rightarrow> string \<Rightarrow> string"
  title_nonascii :: "string \<Rightarrow> string \<Rightarrow> string \<Rightarrow> string"

text \<open>
  \<open>s.lower()\<close> and \<open>s.upper()\<close>: the ASCII letters by the ASCII tables, whatever the
  context; every other code point by the Unicode database.
\<close>

fun lower_cps :: "unicode \<Rightarrow> string \<Rightarrow> string list \<Rightarrow> string" where
  "lower_cps U before [] = []"
| "lower_cps U before (cp # cps) =
     (if is_ascii cp then map lower_char cp else lower_nonascii U before cp (concat cps))
     @ lower_cps U (before @ cp) cps"

definition lower :: "unicode \<Rightarrow> string \<Rightarrow> string" where
  "lower U s = lower_cps U [] (code_points s)"

fun upper_cps :: "unicode \<Rightarrow> string \<Rightarrow> string list \<Rightarrow> string" where
  "upper_cps U before [] = []"
| "upper_cps U before (cp # cps) =
     (if is_ascii cp then map upper_char cp else upper_nonascii U before cp (concat cps))
     @ upper_cps U (before @ cp) cps"

definition upper :: "unicode \<Rightarrow> string \<Rightarrow> string" where
  "upper U s = upper_cps U [] (code_points s)"

text \<open>
  \<open>s.capitalize()\<close>: the first code point in title case (upper case for an ASCII
  letter), the rest in lower case.
\<close>

definition capitalize :: "unicode \<Rightarrow> string \<Rightarrow> string" where
  "capitalize U s =
     (case code_points s of
        [] \<Rightarrow> []
      | cp # cps \<Rightarrow>
          (if is_ascii cp then map upper_char cp else title_nonascii U [] cp (concat cps))
          @ lower_cps U cp cps)"

text \<open>
  The code points for which \<open>str.isspace\<close> holds: the ASCII white space (tab to carriage
  return, the four separators \<open>0x1C\<close> to \<open>0x1F\<close>, the space) and \<open>U+0085\<close>, \<open>U+00A0\<close>,
  \<open>U+1680\<close>, \<open>U+2000\<close> to \<open>U+200A\<close>, \<open>U+2028\<close>, \<open>U+2029\<close>, \<open>U+202F\<close>, \<open>U+205F\<close>,
  \<open>U+3000\<close>.
\<close>

definition whitespace :: "string list" where
  "whitespace = [
    [CHR 0x09], [CHR 0x0A], [CHR 0x0B],
    [CHR 0x0C], [CHR 0x0D], [CHR 0x1C],
    [CHR 0x1D], [CHR 0x1E], [CHR 0x1F],
    [CHR 0x20], [CHR 0xC2, CHR 0x85], [CHR 0xC2, CHR 0xA0],
    [CHR 0xE1, CHR 0x9A, CHR 0x80], [CHR 0xE2, CHR 0x80, CHR 0x80], [CHR 0xE2, CHR 0x80, CHR 0x81],
    [CHR 0xE2, CHR 0x80, CHR 0x82], [CHR 0xE2, CHR 0x80, CHR 0x83], [CHR 0xE2, CHR 0x80, CHR 0x84],
    [CHR 0xE2, CHR 0x80, CHR 0x85], [CHR 0xE2, CHR 0x80, CHR 0x86], [CHR 0xE2, CHR 0x80, CHR 0x87],
    [CHR 0xE2, CHR 0x80, CHR 0x88], [CHR 0xE2, CHR 0x80, CHR 0x89], [CHR 0xE2, CHR 0x80, CHR 0x8A],
    [CHR 0xE2, CHR 0x80, CHR 0xA8], [CHR 0xE2, CHR 0x80, CHR 0xA9], [CHR 0xE2, CHR 0x80, CHR 0xAF],
    [CHR 0xE2, CHR 0x81, CHR 0x9F], [CHR 0xE3, CHR 0x80, CHR 0x80]]"

definition isspace :: "string \<Rightarrow> bool" where
  "isspace cp = (cp \<in> set whitespace)"

text \<open>\<open>s.strip()\<close>: the white-space code points at both ends are removed.\<close>

definition strip :: "string \<Rightarrow> string" where
  "strip s = concat (rev (dropWhile isspace (rev (dropWhile isspace (code_points s)))))"

text \<open>\<open>sub in s\<close> on strings is the contiguous-sublist test.\<close>

definition str_in :: "string \<Rightarrow> string \<Rightarrow> bool" where
  "str_in sub s = sublist sub s"

text \<open>\<open>str(i)\<close> for an integer, as an f-string field \<open>{i}\<close> prints it.\<close>

fun digits :: "nat \<Rightarrow> string" where
  "digits n = (if n < 10 then [''0123456789'' ! n]
               else digits (n div 10) @ [''0123456789'' ! (n mod 10)])"

definition str_int :: "int \<Rightarrow> string" where
  "str_int i = (if i < 0 then ''-'' @ digits (nat (- i)) else digits (nat i))"

text \<open>\<open>s.startswith(p)\<close>.\<close>

definition startswith :: "string \<Rightarrow> string \<Rightarrow> bool" where
  "startswith s p = prefix p s"

text \<open>
  A fragment of the Unicode database for the examples: the Kelvin sign \<open>U+212A\<close>
  lowercases to \<open>k\<close>, the sharp s \<open>U+00DF\<close> uppercases to \<open>SS\<close>; the fragment leaves
  every other code point beyond ASCII as it is.
\<close>

definition example_unicode :: unicode where
  "example_unicode =
     \<lparr>lower_nonascii = (\<lambda>before cp after.
         if cp = [CHR 0xE2, CHR 0x84, CHR 0xAA] then ''k'' else cp),
       upper_nonascii = (\<lambda>before cp after.
         if cp = [CHR 0xC3, CHR 0x9F] then ''SS'' else cp),
       title_nonascii = (\<lambda>before cp after. cp)\<rparr>"

section \<open>Exceptions, the random module and the remote service\<close>

datatype error = KeyError | IndexError | ValueError | TypeError | AttributeError

text \<open>
  The answer of one \<open>client.models.generate_content\<close> call: it raises an exception whose
  \<open>str(e)\<close> is the given description, or returns a response whose \<open>text\<close> attribute is a
  string or \<open>None\<close>.
\<close>

datatype reply = Raises string | Response "string option"

text \<open>
  The state the generator acts on: the pending draws of the module \<open>random\<close> (draw \<open>0\<close>
  is the next one) and the requests sent to the remote service so far, as pairs of model
  name and contents.
\<close>

record world =
  draws :: "nat \<Rightarrow> nat"
  requests :: "(string \<times> string) list"

definition next_draw :: "world \<Rightarrow> world" where
  "next_draw w = w\<lparr>draws := (\<lambda>i. draws w (Suc i))\<rparr>"

text \<open>\<open>random.choice(xs)\<close>: raises \<open>IndexError\<close> on an empty sequence.\<close>

definition random_choice :: "'a list \<Rightarrow> world \<Rightarrow> (error + 'a) \<times> world" where
  "random_choice xs w =
     (if xs = [] then (Inl IndexError, w)
      else (Inr (xs ! (draws w 0 mod length xs)), next_draw w))"

text \<open>\<open>random.randint(a, b)\<close>: an integer of \<open>[a, b]\<close>; raises \<open>ValueError\<close> on an empty range.\<close>

definition random_randint :: "int \<Rightarrow> int \<Rightarrow> world \<Rightarrow> (error + int) \<times> world" where
  "random_randint a b w =
     (if b < a then (Inl ValueError, w)
      else (Inr (a + int (draws w 0 mod nat (b - a + 1))), next_draw w))"

text \<open>
  The client of the remote service: its answer may depend on how many requests came
  before, on the model name and on the contents.
\<close>

type_synonym client = "nat \<Rightarrow> string \<Rightarrow> string \<Rightarrow> reply"

record YoMamaGenerator =
  api_key :: string
  model_name :: string
  client :: client

definition generate_content :: "client \<Rightarrow> string \<Rightarrow> string \<Rightarrow> world \<Rightarrow> reply \<times> world" where
  "generate_content c model contents w =
     (c (length (requests w)) model contents, w\<lparr>requests := requests w @ [(model, contents)]\<rparr>)"

section \<open>The joke generator (yo\_mama\_generator.py)\<close>

definition FLAVORS :: "string list" where
  "FLAVORS = [
    ''classic'',
    ''cybersecurity'',
    ''tech'',
    ''linux'',
    ''general'',
    ''gaming'',
    ''programming'',
    ''networking'',
    ''cloud'',
    ''devops'',
    ''database'',
    ''radio'',
    ''thegame'']"

definition flavor_contexts :: "(string \<times> string) list" where
  \<open>flavor_contexts = [
   (''classic'', ''CLASSIC traditional Yo Mama jokes - use timeless formats like "so fat", "so ugly", "so old", "so stupid", "so poor", "so hairy", "so short", "so tall". Examples: "Yo mama so fat when she sits around the house, she sits AROUND the house", "Yo mama so fat when she got on the scale it said 'I need your weight not your phone number'", "Yo mama so fat I took a picture of her last Christmas and it's still printing", "Yo mama like a race car she burns 4 rubbers a day". Keep it traditional, punchy, and non-technical.''),
   (''cybersecurity'', ''cybersecurity, hacking, vulnerabilities, security tools like CrowdStrike, Shodan, Suricata, Wazuh, firewalls, encryption, CVEs''),
   (''tech'', ''technology, computers, software, hardware, operating systems, IT support, tech companies''),
   (''linux'', ''Linux, Unix, open source, command line, distros, kernel, bash, system administration, package managers''),
   (''general'', ''everyday technology, smartphones, social media, internet, basic computing''),
   (''gaming'', ''video games, gaming hardware, esports, game development, streaming, lag, FPS''),
   (''programming'', ''coding, programming languages, APIs, debugging, git, IDEs, software development''),
   (''networking'', ''networks, routers, switches, protocols, TCP/IP, DNS, load balancing, bandwidth''),
   (''cloud'', ''cloud computing, AWS, Azure, GCP, containers, Kubernetes, serverless, microservices''),
   (''devops'', ''DevOps, CI/CD, Docker, Jenkins, automation, infrastructure as code, monitoring''),
   (''database'', ''databases, SQL, NoSQL, queries, indexes, normalization, database administrators''),
   (''radio'', ''amateur radio, ham radio, frequencies, bands (HF/VHF/UHF), antennas, SWR, propagation, callsigns, morse code, repeaters, QSO, QSL cards, ARRL, FCC licenses (Technician/General/Extra), rigs, transceivers, DX, contestin''),
   (''thegame'', ''The Game - a mind game where thinking about The Game means you lose. Create creative, funny ways to tell them they just lost The Game. Be clever and unexpected. Reference memes, internet culture, or tech concepts if appropriate.'')]\<close>

definition meanness_guide :: "(int \<times> string) list" where
  "meanness_guide = [
   (1, ''extremely gentle and wholesome, just playful teasing''),
   (2, ''mild and friendly, very light roasting''),
   (3, ''gentle but with a slight edge''),
   (4, ''moderately playful with some bite''),
   (5, ''balanced roasting, noticeable but not harsh''),
   (6, ''firm roasting with clear jabs''),
   (7, ''harsh and pointed, definitely stinging''),
   (8, ''brutal and savage, no holding back''),
   (9, ''devastatingly mean, almost cruel''),
   (10, ''absolutely merciless and nuclear-level savage'')]"

definition nerdiness_guide :: "(int \<times> string) list" where
  "nerdiness_guide = [
   (1, ''use only basic everyday terms anyone would understand''),
   (2, ''use simple tech terms most people know''),
   (3, ''use common tech concepts''),
   (4, ''use moderately technical terms''),
   (5, ''use technical jargon that tech-savvy people know''),
   (6, ''use specialized technical terms''),
   (7, ''use insider technical references and acronyms''),
   (8, ''use advanced technical concepts and tools''),
   (9, ''use highly specialized technical knowledge''),
   (10, ''use extremely obscure technical references only experts would get'')]"

text \<open>\<open>d[k]\<close> on a dictionary literal: raises \<open>KeyError\<close> when the key is absent.\<close>

definition getitem :: "('k \<times> 'v) list \<Rightarrow> 'k \<Rightarrow> error + 'v" where
  "getitem d k = (case map_of d k of None \<Rightarrow> Inl KeyError | Some v \<Rightarrow> Inr v)"

text \<open>\<open>d.get(k, default)\<close>.\<close>

definition get_default :: "('k \<times> 'v) list \<Rightarrow> 'k \<Rightarrow> 'v \<Rightarrow> 'v" where
  "get_default d k dflt = (case map_of d k of None \<Rightarrow> dflt | Some v \<Rightarrow> v)"

text \<open>
  The f-string of \<open>_build_prompt\<close>, with its fields as arguments: \<open>flavor\<close>,
  \<open>flavor_context\<close>, \<open>str(meanness)\<close>, \<open>meanness_guide[meanness]\<close>, \<open>str(nerdiness)\<close>,
  \<open>nerdiness_guide[nerdiness]\<close>, \<open>target\<close> and \<open>target.capitalize()\<close>.
\<close>

definition prompt_text ::
  "string \<Rightarrow> string \<Rightarrow> string \<Rightarrow> string \<Rightarrow> string \<Rightarrow> string \<Rightarrow> string \<Rightarrow> string \<Rightarrow> string" where
  \<open>prompt_text flavor flavor_context meanness mean_phrase nerdiness nerd_phrase target target_cap =
    ''Generate a single "Yo Mama" style joke with these specifications:'' @ [CHR 0x0A, CHR 0x0A] @ ''THEME/FLAVOR: '' @
    flavor @
    '' - Focus on '' @
    flavor_context @
    [CHR 0x0A, CHR 0x0A] @ ''MEANNESS LEVEL: '' @
    meanness @
    ''/10 - '' @
    mean_phrase @
    [CHR 0x0A, CHR 0x0A] @ ''NERDINESS LEVEL: '' @
    nerdiness @
    ''/10 - '' @
    nerd_phrase @
    [CHR 0x0A, CHR 0x0A] @ ''TARGET: Use "'' @
    target @
    ''" instead of "yo mama"'' @ [CHR 0x0A, CHR 0x0A] @ ''REQUIREMENTS:'' @ [CHR 0x0A] @ ''- Start with "'' @
    target_cap @
    '' so [adjective]..."'' @ [CHR 0x0A] @ ''- The joke must be related to '' @
    flavor @
    [CHR 0x0A] @ ''- Match the specified meanness and nerdiness levels precisely'' @ [CHR 0x0A] @ ''- Be creative and clever'' @ [CHR 0x0A] @ ''- Keep it concise (1-2 sentences max)'' @ [CHR 0x0A] @ ''- Make it funny and original'' @ [CHR 0x0A, CHR 0x0A] @ ''EXAMPLES for reference (adjust based on parameters):'' @ [CHR 0x0A, CHR 0x0A] @
    flavor @
    '' examples:'' @ [CHR 0x0A] @ ''- Yo mama so insecure, even CrowdStrike put her in Reduced Functionality Mode.'' @ [CHR 0x0A] @ ''- Yo mama so exposed, Shodan sends her vulnerability reports.'' @ [CHR 0x0A] @ ''- Yo mama so slow, when she tried to catch up on her emails, Outlook timed her out.'' @ [CHR 0x0A, CHR 0x0A] @ ''Generate ONE joke now, matching all specifications:''\<close>

text \<open>
  \<open>_build_prompt(flavor, meanness, nerdiness, target_name)\<close>. The two subscripts
  \<open>meanness_guide[meanness]\<close> and \<open>nerdiness_guide[nerdiness]\<close> raise \<open>KeyError\<close> for a
  level that is not a key; they are evaluated in this order.
\<close>

definition build_prompt ::
  "unicode \<Rightarrow> string \<Rightarrow> int \<Rightarrow> int \<Rightarrow> string option \<Rightarrow> error + string" where
  "build_prompt U flavor meanness nerdiness target_name =
     (let flavor_context = get_default flavor_contexts flavor ''general technology'';
          target = (case target_name of None \<Rightarrow> ''yo mama''
                    | Some t \<Rightarrow> if t \<noteq> [] then t else ''yo mama'')
      in case getitem meanness_guide meanness of
           Inl e \<Rightarrow> Inl e
         | Inr mean_phrase \<Rightarrow>
             (case getitem nerdiness_guide nerdiness of
                Inl e \<Rightarrow> Inl e
              | Inr nerd_phrase \<Rightarrow>
                  Inr (prompt_text flavor flavor_context (str_int meanness) mean_phrase
                         (str_int nerdiness) nerd_phrase target (capitalize U target))))"

definition fallbacks :: "(string \<times> string) list" where
  \<open>fallbacks = [
   (''cybersecurity'', ''Yo mama so insecure, even CrowdStrike flagged her as a vulnerability.''),
   (''tech'', ''Yo mama so slow, buffering gives up and goes home.''),
   (''linux'', ''Yo mama so bloated, even apt-get couldn't remove her dependencies.''),
   (''general'', ''Yo mama so old, her password is literally 'password'.''),
   (''gaming'', ''Yo mama so laggy, ping timeout became her nickname.''),
   (''programming'', ''Yo mama so buggy, Stack Overflow created a tag just for her.''),
   (''radio'', ''Yo mama so noisy, she causes interference on all bands at once - 73!''),
   (''thegame'', ''Congratulations! You just lost The Game. And so did everyone reading this. Sorry not sorry. '' @ [CHR 0xF0, CHR 0x9F, CHR 0x8E, CHR 0xAE, CHR 0xF0, CHR 0x9F, CHR 0x92, CHR 0x80])]\<close>

definition generic_fallback :: string where
  "generic_fallback = ''Yo mama so outdated, even legacy systems moved on.''"

text \<open>\<open>_get_fallback_joke(flavor)\<close>.\<close>

definition get_fallback_joke :: "string \<Rightarrow> string" where
  "get_fallback_joke flavor = get_default fallbacks flavor generic_fallback"

definition rate_limit_jokes :: "string list" where
  \<open>rate_limit_jokes = [
    ''Yo mama hitting this API so hard, even Google told her to slow down! '' @ [CHR 0xF0, CHR 0x9F, CHR 0x9A, CHR 0xA6] @ '' (Rate limit exceeded, try again in a minute)'',
    ''Yo mama's requests so thicc, the API said 'I need a break!' '' @ [CHR 0xF0, CHR 0x9F, CHR 0x92, CHR 0xA4] @ '' (Quota exceeded, please try again later)'',
    ''Yo mama making so many requests, the API filed a restraining order! '' @ [CHR 0xF0, CHR 0x9F, CHR 0x9A, CHR 0xA8] @ '' (Rate limit hit, chill for a sec)'',
    ''Yo mama so demanding, she exceeded her quota faster than a script kiddie with a new API key! '' @ [CHR 0xE2, CHR 0x9A, CHR 0xA0, CHR 0xEF, CHR 0xB8, CHR 0x8F] @ '' (Try again in 60 seconds)'',
    ''Yo mama hit that rate limit so fast, even the API was like 'Damn girl, pace yourself!' '' @ [CHR 0xF0, CHR 0x9F, CHR 0x94, CHR 0xA5] @ '' (Quota exceeded, wait a minute)'',
    ''Yo mama's API calls so excessive, Google Gemini ghosted her! '' @ [CHR 0xF0, CHR 0x9F, CHR 0x91, CHR 0xBB] @ '' (Rate limit reached, try again soon)'']\<close>

text \<open>The test of line 119 on \<open>error_msg = str(e)\<close>.\<close>

definition is_rate_limit :: "unicode \<Rightarrow> string \<Rightarrow> bool" where
  "is_rate_limit U error_msg =
     (str_in ''429'' error_msg \<or> str_in ''quota'' (lower U error_msg)
      \<or> str_in ''rate limit'' (lower U error_msg))"

text \<open>
  Lines 88 to 95 of \<open>generate_joke\<close>: an unknown flavor is dropped, a missing one is drawn
  from \<open>FLAVORS\<close>, a given one is lowercased. The test \<open>if flavor and ...\<close> is false for
  \<open>None\<close> and for the empty string.
\<close>

definition resolve_flavor ::
  "unicode \<Rightarrow> string option \<Rightarrow> world \<Rightarrow> (error + string) \<times> world" where
  "resolve_flavor U flavor w =
     (let flavor1 = (case flavor of
                       None \<Rightarrow> None
                     | Some f \<Rightarrow> if f \<noteq> [] \<and> lower U f \<notin> set FLAVORS then None else Some f)
      in case flavor1 of
           None \<Rightarrow> random_choice FLAVORS w
         | Some f \<Rightarrow> (Inr (lower U f), w))"

text \<open>Lines 97 and 98: \<open>max(1, min(10, level))\<close>.\<close>

definition clamp_level :: "int \<Rightarrow> int" where
  "clamp_level level = max 1 (min 10 level)"

text \<open>
  Lines 88 to 101 of \<open>generate_joke\<close>, the part before the \<open>try\<close>: it yields the resolved
  flavor and the prompt, or the exception that escapes.
\<close>

definition compose ::
  "unicode \<Rightarrow> string option \<Rightarrow> int \<Rightarrow> int \<Rightarrow> string option \<Rightarrow> world
     \<Rightarrow> (error + string \<times> string) \<times> world" where
  "compose U flavor meanness nerdiness target_name w =
     (case resolve_flavor U flavor w of
        (Inl e, w1) \<Rightarrow> (Inl e, w1)
      | (Inr flavor2, w1) \<Rightarrow>
          (case build_prompt U flavor2 (clamp_level meanness) (clamp_level nerdiness) target_name of
             Inl e \<Rightarrow> (Inl e, w1)
           | Inr prompt \<Rightarrow> (Inr (flavor2, prompt), w1)))"

text \<open>
  The handler of lines 114 to 131, given \<open>error_msg\<close> and the resolved flavor.
\<close>

definition on_failure ::
  "unicode \<Rightarrow> string \<Rightarrow> string \<Rightarrow> world \<Rightarrow> (error + string) \<times> world" where
  "on_failure U error_msg flavor w =
     (if is_rate_limit U error_msg then random_choice rate_limit_jokes w
      else (Inr (get_fallback_joke flavor), w))"

text \<open>
  What \<open>str(e)\<close> is when \<open>response.text\<close> is \<open>None\<close> and \<open>.strip()\<close> raises
  \<open>AttributeError\<close> inside the \<open>try\<close>.
\<close>

definition none_strip_msg :: string where
  "none_strip_msg = [CHR 0x27] @ ''NoneType'' @ [CHR 0x27] @ '' object has no attribute ''
                      @ [CHR 0x27] @ ''strip'' @ [CHR 0x27]"

text \<open>\<open>generate_joke(flavor, meanness, nerdiness, target_name)\<close>.\<close>

definition generate_joke ::
  "unicode \<Rightarrow> YoMamaGenerator \<Rightarrow> string option \<Rightarrow> int \<Rightarrow> int \<Rightarrow> string option \<Rightarrow> world
     \<Rightarrow> (error + string) \<times> world" where
  "generate_joke U self flavor meanness nerdiness target_name w =
     (case compose U flavor meanness nerdiness target_name w of
        (Inl e, w1) \<Rightarrow> (Inl e, w1)
      | (Inr (flavor2, prompt), w1) \<Rightarrow>
          (case generate_content (client self) (model_name self) prompt w1 of
             (Response (Some text), w2) \<Rightarrow> (Inr (strip text), w2)
           | (Response None, w2) \<Rightarrow> on_failure U none_strip_msg flavor2 w2
           | (Raises error_msg, w2) \<Rightarrow> on_failure U error_msg flavor2 w2))"

text \<open>
  \<open>generate_batch\<close>: the loop \<open>for i in range(count)\<close> runs \<open>count\<close> times (no time
  for a negative \<open>count\<close>). Each round calls \<open>self.generate_joke(...)\<close> inside a \<open>try\<close>;
  the method is looked up on \<open>self\<close> in every round, so the loop is written for any
  item call \<open>call\<close>. The \<open>except\<close> of line 265 drops an item whose call raised and the
  loop goes on with the next round.
\<close>

fun batch_loop ::
  "(world \<Rightarrow> (error + string) \<times> world) \<Rightarrow> nat \<Rightarrow> string list \<Rightarrow> world \<Rightarrow> string list \<times> world" where
  "batch_loop call 0 jokes w = (jokes, w)"
| "batch_loop call (Suc k) jokes w =
     (case call w of
        (Inl e, w1) \<Rightarrow> batch_loop call k jokes w1
      | (Inr joke, w1) \<Rightarrow> batch_loop call k (jokes @ [joke]) w1)"

definition generate_batch ::
  "unicode \<Rightarrow> YoMamaGenerator \<Rightarrow> int \<Rightarrow> string option \<Rightarrow> int \<Rightarrow> int \<Rightarrow> string option \<Rightarrow> world
     \<Rightarrow> string list \<times> world" where
  "generate_batch U self count flavor meanness nerdiness target_name w =
     batch_loop (generate_joke U self flavor meanness nerdiness target_name) (nat count) [] w"

text \<open>
  Lines 272 to 274 of \<open>random_joke\<close>: the three draws, in the order of the source.
\<close>

definition random_joke_args :: "world \<Rightarrow> (error + string \<times> int \<times> int) \<times> world" where
  "random_joke_args w =
     (case random_choice FLAVORS w of
        (Inl e, w1) \<Rightarrow> (Inl e, w1)
      | (Inr flavor, w1) \<Rightarrow>
          (case random_randint 3 7 w1 of
             (Inl e, w2) \<Rightarrow> (Inl e, w2)
           | (Inr meanness, w2) \<Rightarrow>
               (case random_randint 3 7 w2 of
                  (Inl e, w3) \<Rightarrow> (Inl e, w3)
                | (Inr nerdiness, w3) \<Rightarrow> (Inr (flavor, meanness, nerdiness), w3))))"

text \<open>\<open>random_joke()\<close>: the draws, then the call of \<open>generate_joke\<close> with no target name.\<close>

definition random_joke ::
  "unicode \<Rightarrow> YoMamaGenerator \<Rightarrow> world \<Rightarrow> (error + string) \<times> world" where
  "random_joke U self w =
     (case random_joke_args w of
        (Inl e, w1) \<Rightarrow> (Inl e, w1)
      | (Inr (flavor, meanness, nerdiness), w1) \<Rightarrow>
          generate_joke U self (Some flavor) meanness nerdiness None w1)"

text \<open>\<open>list_flavors()\<close>: a copy of the catalog.\<close>

definition list_flavors :: "string list" where
  "list_flavors = FLAVORS"

section \<open>Secrets (secrets.py)\<close>

text \<open>
  The Python values that reach \<open>get_secret\<close> from the secret stores: what \<open>json.loads\<close>
  makes of a \<open>SecretString\<close>, what Vault or Doppler hand back. A dictionary is given by
  its items (keys distinct); JSON numbers are taken as integers.
\<close>

datatype pyval =
  PNone
| PBool bool
| PInt int
| PStr string
| PList "pyval list"
| PDict "(string \<times> pyval) list"

text \<open>Truth value (\<open>if value:\<close>).\<close>

fun truth :: "pyval \<Rightarrow> bool" where
  "truth PNone = False"
| "truth (PBool b) = b"
| "truth (PInt i) = (i \<noteq> 0)"
| "truth (PStr s) = (s \<noteq> [])"
| "truth (PList xs) = (xs \<noteq> [])"
| "truth (PDict d) = (d \<noteq> [])"

text \<open>
  \<open>k in d\<close> for a string \<open>k\<close>: membership of the key in a dictionary, of the element in a
  list, substring test in a string; \<open>TypeError\<close> on a value that is not iterable.
\<close>

fun contains :: "string \<Rightarrow> pyval \<Rightarrow> error + bool" where
  "contains k (PDict d) = Inr (map_of d k \<noteq> None)"
| "contains k (PList xs) = Inr (PStr k \<in> set xs)"
| "contains k (PStr t) = Inr (str_in k t)"
| "contains k PNone = Inl TypeError"
| "contains k (PBool b) = Inl TypeError"
| "contains k (PInt i) = Inl TypeError"

text \<open>
  \<open>d[k]\<close> for a string \<open>k\<close>: the value of a dictionary (\<open>KeyError\<close> when absent);
  \<open>TypeError\<close> on a list, a string and every other value.
\<close>

fun subscript :: "pyval \<Rightarrow> string \<Rightarrow> error + pyval" where
  "subscript (PDict d) k = (case map_of d k of None \<Rightarrow> Inl KeyError | Some v \<Rightarrow> Inr v)"
| "subscript (PList xs) k = Inl TypeError"
| "subscript (PStr t) k = Inl TypeError"
| "subscript PNone k = Inl TypeError"
| "subscript (PBool b) k = Inl TypeError"
| "subscript (PInt i) k = Inl TypeError"

text \<open>
  A call into a client library either raises or returns. The three loaders enclose every
  such call in \<open>try\<close> blocks whose handlers return the empty dictionary.
\<close>

datatype 'a outcome = Raised | Returned 'a

text \<open>
  The response of \<open>sdk.secrets.list\<close>: an object without the attribute \<open>secrets\<close>, or
  one whose \<open>secrets\<close> is a dictionary, given by its items in iteration order (a
  \<open>secrets\<close> that is no dictionary raises inside the loader's \<open>try\<close>: that is the
  outcome \<open>Raised\<close>).
\<close>

datatype doppler_response =
  No_Secrets_Attribute
| Secrets "(string \<times> pyval) list"

text \<open>
  What the Vault client yields: not authenticated, or the value of
  \<open>response['data']['data']\<close> (a response without it raises inside the loader's \<open>try\<close>:
  that is the outcome \<open>Raised\<close>).
\<close>

datatype vault_response =
  Not_Authenticated
| Vault_Data pyval

text \<open>
  What \<open>get_secret\<close> reads from outside: the process environment, and the three client
  libraries, each \<open>None\<close> when its package is not installed (the \<open>import\<close> raises
  \<open>ImportError\<close>). The Doppler client is given the token, the project and the config; the
  AWS client the secret name, and returns \<open>json.loads\<close> of the \<open>SecretString\<close>, which is
  any JSON value; the Vault client the URL, the token and the path.
\<close>

record sources =
  environ :: "string \<rightharpoonup> string"
  dopplersdk :: "(string \<Rightarrow> string \<Rightarrow> string \<Rightarrow> doppler_response outcome) option"
  boto3 :: "(string \<Rightarrow> pyval outcome) option"
  hvac :: "(string \<Rightarrow> string \<Rightarrow> string \<Rightarrow> vault_response outcome) option"

text \<open>Truth value of an \<open>Optional[str]\<close>: \<open>None\<close> and the empty string are false.\<close>

definition truthy :: "string option \<Rightarrow> bool" where
  "truthy x = (case x of None \<Rightarrow> False | Some v \<Rightarrow> v \<noteq> [])"

text \<open>An \<open>Optional[str]\<close> as a Python value.\<close>

definition of_optional :: "string option \<Rightarrow> pyval" where
  "of_optional x = (case x of None \<Rightarrow> PNone | Some v \<Rightarrow> PStr v)"

text \<open>\<open>os.getenv(name)\<close> and \<open>os.getenv(name, default)\<close>.\<close>

definition getenv :: "sources \<Rightarrow> string \<Rightarrow> string option" where
  "getenv s name = environ s name"

definition getenv_default :: "sources \<Rightarrow> string \<Rightarrow> string \<Rightarrow> string" where
  "getenv_default s name dflt = (case environ s name of None \<Rightarrow> dflt | Some v \<Rightarrow> v)"

text \<open>
  \<open>secret_value.get('computed', secret_value.get('raw', ''))\<close>: \<open>AttributeError\<close> when
  \<open>secret_value\<close> is not a dictionary.
\<close>

fun doppler_value :: "pyval \<Rightarrow> error + pyval" where
  "doppler_value (PDict d) =
     Inr (case map_of d ''computed'' of
            Some c \<Rightarrow> c
          | None \<Rightarrow> (case map_of d ''raw'' of Some r \<Rightarrow> r | None \<Rightarrow> PStr []))"
| "doppler_value v = Inl AttributeError"

text \<open>
  The loop of lines 122 to 131 over the items, updating \<open>secrets_dict\<close>; it stops at the
  first item whose value raises.
\<close>

fun doppler_collect ::
  "unicode \<Rightarrow> string option \<Rightarrow> (string \<times> pyval) list \<Rightarrow> (string \<rightharpoonup> pyval)
     \<Rightarrow> error + (string \<rightharpoonup> pyval)" where
  "doppler_collect U secret_name [] secrets_dict = Inr secrets_dict"
| "doppler_collect U secret_name ((secret_key, secret_value) # rest) secrets_dict =
     (case (case secret_name of None \<Rightarrow> None | Some n \<Rightarrow> if n \<noteq> [] then Some n else None) of
        Some n \<Rightarrow>
          if startswith (upper U secret_key) (upper U n) then
            (case doppler_value secret_value of
               Inl e \<Rightarrow> Inl e
             | Inr v \<Rightarrow>
                 doppler_collect U secret_name rest
                   (secrets_dict(lower U (slice_from (len n + 1) secret_key) \<mapsto> v)))
          else doppler_collect U secret_name rest secrets_dict
      | None \<Rightarrow>
          (case doppler_value secret_value of
             Inl e \<Rightarrow> Inl e
           | Inr v \<Rightarrow> doppler_collect U secret_name rest (secrets_dict(secret_key \<mapsto> v))))"

text \<open>\<open>load_secrets_from_doppler(secret_name)\<close>: always a dictionary.\<close>

definition load_secrets_from_doppler ::
  "unicode \<Rightarrow> sources \<Rightarrow> string option \<Rightarrow> (string \<rightharpoonup> pyval)" where
  "load_secrets_from_doppler U s secret_name =
     (case dopplersdk s of
        None \<Rightarrow> Map.empty
      | Some sdk \<Rightarrow>
          (case getenv s ''DOPPLER_TOKEN'' of
             None \<Rightarrow> Map.empty
           | Some doppler_token \<Rightarrow>
               if doppler_token = [] then Map.empty
               else
                 (case sdk doppler_token (getenv_default s ''DOPPLER_PROJECT'' ''yo-mama-bot'')
                         (getenv_default s ''DOPPLER_CONFIG'' ''dev'') of
                    Raised \<Rightarrow> Map.empty
                  | Returned No_Secrets_Attribute \<Rightarrow> Map.empty
                  | Returned (Secrets items) \<Rightarrow>
                      (case doppler_collect U secret_name items Map.empty of
                         Inl e \<Rightarrow> Map.empty
                       | Inr secrets_dict \<Rightarrow> secrets_dict))))"

text \<open>
  \<open>load_secrets_from_aws(secret_name)\<close>: the empty dictionary on an error, else whatever
  \<open>json.loads\<close> made of the \<open>SecretString\<close> (line 37 returns it unchecked).
\<close>

definition load_secrets_from_aws :: "sources \<Rightarrow> string \<Rightarrow> pyval" where
  "load_secrets_from_aws s secret_name =
     (case boto3 s of
        None \<Rightarrow> PDict []
      | Some get_secret_value \<Rightarrow>
          (case get_secret_value secret_name of
             Raised \<Rightarrow> PDict []
           | Returned secrets \<Rightarrow> secrets))"

text \<open>\<open>load_secrets_from_vault(secret_path)\<close>.\<close>

definition load_secrets_from_vault :: "sources \<Rightarrow> string \<Rightarrow> pyval" where
  "load_secrets_from_vault s secret_path =
     (case hvac s of
        None \<Rightarrow> PDict []
      | Some read_secret \<Rightarrow>
          (case (getenv s ''SECRETS_VAULT_URL'', getenv s ''SECRETS_VAULT_TOKEN'') of
             (Some vault_url, Some vault_token) \<Rightarrow>
               if vault_url = [] \<or> vault_token = [] then PDict []
               else
                 (case read_secret vault_url vault_token secret_path of
                    Raised \<Rightarrow> PDict []
                  | Returned Not_Authenticated \<Rightarrow> PDict []
                  | Returned (Vault_Data secrets) \<Rightarrow> secrets)
           | _ \<Rightarrow> PDict []))"

text \<open>
  The pattern \<open>if k in d: value = d[k]; if value: return value\<close> of \<open>get_secret\<close> on the
  dictionary of the Doppler loader: the value it returns, if it returns.
\<close>

definition found :: "(string \<rightharpoonup> pyval) \<Rightarrow> string \<Rightarrow> pyval option" where
  "found d k = (case d k of None \<Rightarrow> None | Some v \<Rightarrow> if truth v then Some v else None)"

text \<open>
  The same pattern on the payload of the AWS or Vault loader, which need not be a
  dictionary: \<open>Inl\<close> when \<open>k in d\<close> or \<open>d[k]\<close> raises, \<open>Inr (Some value)\<close> when the
  pattern returns the value, \<open>Inr None\<close> when control goes on.
\<close>

definition lookup :: "pyval \<Rightarrow> string \<Rightarrow> error + pyval option" where
  "lookup d k =
     (case contains k d of
        Inl e \<Rightarrow> Inl e
      | Inr False \<Rightarrow> Inr None
      | Inr True \<Rightarrow>
          (case subscript d k of
             Inl e \<Rightarrow> Inl e
           | Inr v \<Rightarrow> if truth v then Inr (Some v) else Inr None))"

text \<open>Lines 197 to 200: the name of the environment variable.\<close>

definition env_key_of :: "unicode \<Rightarrow> string option \<Rightarrow> string \<Rightarrow> string" where
  "env_key_of U platform key =
     (case platform of
        None \<Rightarrow> upper U key
      | Some p \<Rightarrow> if p \<noteq> [] then upper U p @ ''_'' @ upper U key else upper U key)"

text \<open>Lines 203 to 220: what the Doppler stage returns, if it returns.\<close>

definition doppler_stage ::
  "unicode \<Rightarrow> sources \<Rightarrow> string \<Rightarrow> string \<Rightarrow> string option \<Rightarrow> pyval option" where
  "doppler_stage U s key env_key doppler_prefix =
     (if truthy (getenv s ''DOPPLER_TOKEN'') then
        (case (case doppler_prefix of
                 None \<Rightarrow> None
               | Some p \<Rightarrow>
                   if p \<noteq> [] then found (load_secrets_from_doppler U s (Some p)) (lower U key)
                   else None) of
           Some v \<Rightarrow> Some v
         | None \<Rightarrow> found (load_secrets_from_doppler U s None) env_key)
      else None)"

text \<open>Lines 226 to 238: the AWS stage.\<close>

definition aws_stage ::
  "unicode \<Rightarrow> sources \<Rightarrow> string \<Rightarrow> string \<Rightarrow> string \<Rightarrow> string option \<Rightarrow> error + pyval option" where
  "aws_stage U s secret_manager key env_key aws_secret_name =
     (case aws_secret_name of
        None \<Rightarrow> Inr None
      | Some n \<Rightarrow>
          if secret_manager = ''aws'' \<and> n \<noteq> [] then
            (case lookup (load_secrets_from_aws s n) (lower U key) of
               Inl e \<Rightarrow> Inl e
             | Inr (Some v) \<Rightarrow> Inr (Some v)
             | Inr None \<Rightarrow> lookup (load_secrets_from_aws s n) (lower U env_key))
          else Inr None)"

text \<open>Lines 241 to 253: the Vault stage.\<close>

definition vault_stage ::
  "unicode \<Rightarrow> sources \<Rightarrow> string \<Rightarrow> string \<Rightarrow> string \<Rightarrow> string option \<Rightarrow> error + pyval option" where
  "vault_stage U s secret_manager key env_key vault_secret_path =
     (case vault_secret_path of
        None \<Rightarrow> Inr None
      | Some n \<Rightarrow>
          if secret_manager = ''vault'' \<and> n \<noteq> [] then
            (case lookup (load_secrets_from_vault s n) (lower U key) of
               Inl e \<Rightarrow> Inl e
             | Inr (Some v) \<Rightarrow> Inr (Some v)
             | Inr None \<Rightarrow> lookup (load_secrets_from_vault s n) (lower U env_key))
          else Inr None)"

text \<open>
  The body of the \<open>try\<close> of \<open>get_secret\<close> (lines 196 to 267): the value it returns, or
  the exception that leaves it.
\<close>

definition get_secret_body ::
  "unicode \<Rightarrow> sources \<Rightarrow> string \<Rightarrow> string option \<Rightarrow> string option \<Rightarrow> string option
     \<Rightarrow> string option \<Rightarrow> string option \<Rightarrow> error + pyval" where
  "get_secret_body U s key platform dflt aws_secret_name vault_secret_path doppler_prefix =
     (let env_key = env_key_of U platform key in
      case doppler_stage U s key env_key doppler_prefix of
        Some v \<Rightarrow> Inr v
      | None \<Rightarrow>
          (let secret_manager = lower U (getenv_default s ''SECRETS_MANAGER'' ''none'') in
           case aws_stage U s secret_manager key env_key aws_secret_name of
             Inl e \<Rightarrow> Inl e
           | Inr (Some v) \<Rightarrow> Inr v
           | Inr None \<Rightarrow>
               (case vault_stage U s secret_manager key env_key vault_secret_path of
                  Inl e \<Rightarrow> Inl e
                | Inr (Some v) \<Rightarrow> Inr v
                | Inr None \<Rightarrow>
                    (case getenv s env_key of
                       Some env_value \<Rightarrow>
                         if env_value \<noteq> [] then Inr (PStr env_value) else Inr (of_optional dflt)
                     | None \<Rightarrow> Inr (of_optional dflt)))))"

text \<open>
  \<open>get_secret(key, platform, default, aws_secret_name, vault_secret_path, doppler_prefix)\<close>:
  the handler of line 269 turns any exception of the body into the default.
\<close>

definition get_secret ::
  "unicode \<Rightarrow> sources \<Rightarrow> string \<Rightarrow> string option \<Rightarrow> string option \<Rightarrow> string option
     \<Rightarrow> string option \<Rightarrow> string option \<Rightarrow> pyval" where
  "get_secret U s key platform dflt aws_secret_name vault_secret_path doppler_prefix =
     (case get_secret_body U s key platform dflt aws_secret_name vault_secret_path
             doppler_prefix of
        Inl e \<Rightarrow> of_optional dflt
      | Inr v \<Rightarrow> v)"

text \<open>
  An environment for the examples: AWS is the enabled secrets manager, the variable
  \<open>GEMINI_API_KEY\<close> is set, Doppler and Vault are absent, and the AWS client answers
  every secret name with the given outcome.
\<close>

definition aws_environment :: "pyval outcome \<Rightarrow> sources" where
  "aws_environment answer =
     \<lparr>environ = [''SECRETS_MANAGER'' \<mapsto> ''aws'', ''GEMINI_API_KEY'' \<mapsto> ''from-env''],
       dopplersdk = None,
       boto3 = Some (\<lambda>secret_name. answer),
       hvac = None\<rparr>"

section \<open>Facts about the tables and the composition step\<close>

lemmas str_eval =
  lower_def upper_def capitalize_def is_continuation_def is_ascii_def lower_char_def
  upper_char_def ascii_uppercase_def ascii_lowercase_def

lemma FLAVORS_nonempty: "FLAVORS \<noteq> []"
  by (simp add: FLAVORS_def)

lemma length_FLAVORS: "length FLAVORS = 13"
  by (simp add: FLAVORS_def)

lemma length_rate_limit_jokes: "length rate_limit_jokes = 6"
  by (simp add: rate_limit_jokes_def)

lemma clamp_level_range: "1 \<le> clamp_level x \<and> clamp_level x \<le> 10"
  by (simp add: clamp_level_def)

lemma level_cases:
  assumes "1 \<le> (i::int)" and "i \<le> 10"
  shows "i = 1 \<or> i = 2 \<or> i = 3 \<or> i = 4 \<or> i = 5 \<or> i = 6 \<or> i = 7 \<or> i = 8 \<or> i = 9 \<or> i = 10"
  using assms by arith

lemma meanness_guide_total:
  assumes "1 \<le> i" and "i \<le> 10"
  shows "\<exists>v. getitem meanness_guide i = Inr v"
  using level_cases [OF assms] by (auto simp: getitem_def meanness_guide_def)

lemma nerdiness_guide_total:
  assumes "1 \<le> i" and "i \<le> 10"
  shows "\<exists>v. getitem nerdiness_guide i = Inr v"
  using level_cases [OF assms] by (auto simp: getitem_def nerdiness_guide_def)

lemma build_prompt_in_range:
  assumes "1 \<le> m" "m \<le> 10" "1 \<le> n" "n \<le> 10"
  shows "\<exists>p. build_prompt U f m n t = Inr p"
proof -
  obtain a where a: "getitem meanness_guide m = Inr a"
    using meanness_guide_total assms by blast
  obtain b where b: "getitem nerdiness_guide n = Inr b"
    using nerdiness_guide_total assms by blast
  show ?thesis by (simp add: build_prompt_def a b Let_def)
qed

text \<open>The three ways through lines 88 to 95.\<close>

lemma resolve_flavor_cases:
  "resolve_flavor U flavor w =
     (case flavor of
        None \<Rightarrow> (Inr (FLAVORS ! (draws w 0 mod 13)), next_draw w)
      | Some f \<Rightarrow> if f \<noteq> [] \<and> lower U f \<notin> set FLAVORS
                  then (Inr (FLAVORS ! (draws w 0 mod 13)), next_draw w)
                  else (Inr (lower U f), w))"
  by (simp add: resolve_flavor_def random_choice_def FLAVORS_nonempty length_FLAVORS
           split: option.split)

lemma resolve_flavor_Inr: "\<exists>f. fst (resolve_flavor U flavor w) = Inr f"
  by (simp add: resolve_flavor_cases split: option.split)

lemma resolve_flavor_requests: "requests (snd (resolve_flavor U flavor w)) = requests w"
  by (simp add: resolve_flavor_cases next_draw_def split: option.split)

lemma compose_Inr:
  "\<exists>f p. compose U flavor m n t w = (Inr (f, p), snd (resolve_flavor U flavor w))
         \<and> fst (resolve_flavor U flavor w) = Inr f
         \<and> build_prompt U f (clamp_level m) (clamp_level n) t = Inr p"
proof -
  obtain f where f: "fst (resolve_flavor U flavor w) = Inr f"
    using resolve_flavor_Inr by blast
  obtain w1 where w1: "resolve_flavor U flavor w = (Inr f, w1)"
    using f by (cases "resolve_flavor U flavor w") simp
  obtain p where p: "build_prompt U f (clamp_level m) (clamp_level n) t = Inr p"
    using build_prompt_in_range clamp_level_range by blast
  have "compose U flavor m n t w = (Inr (f, p), w1)"
    by (simp add: compose_def w1 p)
  with w1 p show ?thesis by simp
qed

text \<open>
  Once the flavor is resolved and the prompt built, \<open>generate_joke\<close> sends one request
  and branches on the reply.
\<close>

lemma generate_joke_unfold:
  assumes "fst (resolve_flavor U flavor w) = Inr f"
    and "build_prompt U f (clamp_level m) (clamp_level n) t = Inr p"
  shows "generate_joke U self flavor m n t w =
     (let w2 = (snd (resolve_flavor U flavor w))\<lparr>requests := requests w @ [(model_name self, p)]\<rparr>
      in case client self (length (requests w)) (model_name self) p of
           Response (Some text) \<Rightarrow> (Inr (strip text), w2)
         | Response None \<Rightarrow> on_failure U none_strip_msg f w2
         | Raises error_msg \<Rightarrow> on_failure U error_msg f w2)"
proof -
  obtain w1 where w1: "resolve_flavor U flavor w = (Inr f, w1)"
    using assms(1) by (cases "resolve_flavor U flavor w") simp
  have r: "requests w1 = requests w"
    using resolve_flavor_requests [of U flavor w] by (simp add: w1)
  have c: "compose U flavor m n t w = (Inr (f, p), w1)"
    by (simp add: compose_def w1 assms(2))
  show ?thesis
    by (simp add: generate_joke_def c generate_content_def r w1 Let_def
             split: reply.split option.split)
qed

lemma on_failure_rate_limit:
  "is_rate_limit U msg \<Longrightarrow>
     on_failure U msg f w = (Inr (rate_limit_jokes ! (draws w 0 mod 6)), next_draw w)"
  using length_rate_limit_jokes
  by (auto simp: on_failure_def random_choice_def)

lemma on_failure_other:
  "\<not> is_rate_limit U msg \<Longrightarrow> on_failure U msg f w = (Inr (get_fallback_joke f), w)"
  by (simp add: on_failure_def)

lemma fallbacks_nonempty:
  assumes "map_of fallbacks f = Some j"
  shows "j \<noteq> []"
proof -
  from assms have "(f, j) \<in> set fallbacks" by (rule map_of_SomeD)
  then show ?thesis by (auto simp: fallbacks_def)
qed

lemma get_fallback_joke_nonempty: "get_fallback_joke f \<noteq> []"
  by (auto simp: get_fallback_joke_def get_default_def generic_fallback_def
           split: option.split dest: fallbacks_nonempty)

section \<open>Failure handling of generate\_joke\<close>

text \<open>
  C1: when the remote call raises and the description of the failure contains \<open>429\<close>, or
  contains \<open>quota\<close> or \<open>rate limit\<close> after lowercasing, \<open>generate_joke\<close> returns a value
  (no exception leaves it), and the value is one of the six throttling jokes: the one the
  next draw after the flavor resolution picks.
\<close>

theorem throttling_failure_returns_rate_limit_joke:
  assumes marker: "str_in ''429'' msg \<or> str_in ''quota'' (lower U msg)
                   \<or> str_in ''rate limit'' (lower U msg)"
    and fails: "\<forall>prompt. client self (length (requests w)) (model_name self) prompt = Raises msg"
  shows "\<exists>joke w'. generate_joke U self flavor meanness nerdiness target_name w = (Inr joke, w')
           \<and> joke \<in> set rate_limit_jokes
           \<and> joke = rate_limit_jokes ! (draws (snd (resolve_flavor U flavor w)) 0 mod 6)
           \<and> length rate_limit_jokes = 6"
proof -
  obtain f p where f: "fst (resolve_flavor U flavor w) = Inr f"
    and p: "build_prompt U f (clamp_level meanness) (clamp_level nerdiness) target_name = Inr p"
    using compose_Inr by blast
  have rl: "is_rate_limit U msg"
    using marker by (simp add: is_rate_limit_def)
  let ?k = "draws (snd (resolve_flavor U flavor w)) 0 mod 6"
  have "fst (generate_joke U self flavor meanness nerdiness target_name w)
          = Inr (rate_limit_jokes ! ?k)"
    by (simp add: generate_joke_unfold [OF f p] fails on_failure_rate_limit [OF rl] Let_def)
  moreover have "rate_limit_jokes ! ?k \<in> set rate_limit_jokes"
    by (simp add: length_rate_limit_jokes)
  ultimately show ?thesis
    using length_rate_limit_jokes by (metis prod.collapse)
qed

theorem throttling_failure_returns_rate_limit_joke_witness:
  "(str_in ''429'' ''Resource QUOTA exhausted''
      \<or> str_in ''quota'' (lower example_unicode ''Resource QUOTA exhausted'')
      \<or> str_in ''rate limit'' (lower example_unicode ''Resource QUOTA exhausted''))
   \<and> (\<exists>joke w'.
        generate_joke example_unicode
          \<lparr>api_key = ''key'', model_name = ''gemini-2.5-flash-lite'',
            client = (\<lambda>n model contents. Raises ''Resource QUOTA exhausted'')\<rparr>
          (Some ''tech'') 5 5 None \<lparr>draws = (\<lambda>i. 3), requests = []\<rparr> = (Inr joke, w')
        \<and> joke \<in> set rate_limit_jokes
        \<and> joke = rate_limit_jokes ! 3)"
proof -
  let ?msg = "''Resource QUOTA exhausted''"
  let ?self = "\<lparr>api_key = ''key'', model_name = ''gemini-2.5-flash-lite'',
                 client = (\<lambda>n model contents. Raises ?msg)\<rparr>"
  let ?w = "\<lparr>draws = (\<lambda>i. 3), requests = []\<rparr>"
  have m: "str_in ''429'' ?msg \<or> str_in ''quota'' (lower example_unicode ?msg) \<or> str_in ''rate limit'' (lower example_unicode ?msg)"
    by (simp add: str_in_def str_eval
          sublist_code)
  have c: "\<forall>prompt. client ?self (length (requests ?w)) (model_name ?self) prompt = Raises ?msg"
    by simp
  have d: "draws (snd (resolve_flavor example_unicode (Some ''tech'') ?w)) 0 mod 6 = 3"
    by (simp add: resolve_flavor_cases str_eval FLAVORS_def)
  from throttling_failure_returns_rate_limit_joke [OF m c, of "Some ''tech''" 5 5 None]
  show ?thesis using m d by auto
qed

text \<open>
  C2: when the remote call raises and the description matches none of the three markers,
  \<open>generate_joke\<close> returns a value (no exception leaves it): the entry of the resolved
  flavor in \<open>fallbacks\<close> when it has one, the generic fallback otherwise. The returned
  string is not empty.
\<close>

theorem other_failure_returns_fallback_joke:
  assumes other: "\<not> str_in ''429'' msg" "\<not> str_in ''quota'' (lower U msg)"
      "\<not> str_in ''rate limit'' (lower U msg)"
    and fails: "\<forall>prompt. client self (length (requests w)) (model_name self) prompt = Raises msg"
  shows "\<exists>f joke w'. fst (resolve_flavor U flavor w) = Inr f
           \<and> generate_joke U self flavor meanness nerdiness target_name w = (Inr joke, w')
           \<and> joke = (case map_of fallbacks f of Some j \<Rightarrow> j | None \<Rightarrow> generic_fallback)
           \<and> joke \<noteq> []"
proof -
  obtain f p where f: "fst (resolve_flavor U flavor w) = Inr f"
    and p: "build_prompt U f (clamp_level meanness) (clamp_level nerdiness) target_name = Inr p"
    using compose_Inr by blast
  have nrl: "\<not> is_rate_limit U msg"
    using other by (simp add: is_rate_limit_def)
  have "fst (generate_joke U self flavor meanness nerdiness target_name w)
          = Inr (get_fallback_joke f)"
    by (simp add: generate_joke_unfold [OF f p] fails on_failure_other [OF nrl] Let_def)
  moreover have "get_fallback_joke f
      = (case map_of fallbacks f of Some j \<Rightarrow> j | None \<Rightarrow> generic_fallback)"
    by (simp add: get_fallback_joke_def get_default_def split: option.split)
  ultimately show ?thesis
    using f get_fallback_joke_nonempty [of f] by (metis prod.collapse)
qed

theorem other_failure_returns_fallback_joke_witness:
  "(\<not> str_in ''429'' ''503 Service Unavailable''
      \<and> \<not> str_in ''quota'' (lower example_unicode ''503 Service Unavailable'')
      \<and> \<not> str_in ''rate limit'' (lower example_unicode ''503 Service Unavailable''))
   \<and> (\<exists>w'. generate_joke example_unicode
          \<lparr>api_key = ''key'', model_name = ''gemini-2.5-flash-lite'',
            client = (\<lambda>n model contents. Raises ''503 Service Unavailable'')\<rparr>
          (Some ''linux'') 5 5 None \<lparr>draws = (\<lambda>i. 3), requests = []\<rparr>
        = (Inr (''Yo mama so bloated, even apt-get couldn'' @ [CHR 0x27]
                  @ ''t remove her dependencies.''), w'))
   \<and> (\<exists>w'. generate_joke example_unicode
          \<lparr>api_key = ''key'', model_name = ''gemini-2.5-flash-lite'',
            client = (\<lambda>n model contents. Raises ''503 Service Unavailable'')\<rparr>
          (Some ''cloud'') 5 5 None \<lparr>draws = (\<lambda>i. 3), requests = []\<rparr>
        = (Inr ''Yo mama so outdated, even legacy systems moved on.'', w'))"
proof -
  let ?msg = "''503 Service Unavailable''"
  let ?self = "\<lparr>api_key = ''key'', model_name = ''gemini-2.5-flash-lite'',
                 client = (\<lambda>n model contents. Raises ?msg)\<rparr>"
  let ?w = "\<lparr>draws = (\<lambda>i. 3), requests = []\<rparr>"
  have m: "\<not> str_in ''429'' ?msg" "\<not> str_in ''quota'' (lower example_unicode ?msg)"
      "\<not> str_in ''rate limit'' (lower example_unicode ?msg)"
    by (simp_all add: str_in_def str_eval sublist_code)
  have c: "\<forall>prompt. client ?self (length (requests ?w)) (model_name ?self) prompt = Raises ?msg"
    by simp
  have l: "fst (resolve_flavor example_unicode (Some ''linux'') ?w) = Inr ''linux''"
    by (simp add: resolve_flavor_cases str_eval FLAVORS_def)
  have k: "fst (resolve_flavor example_unicode (Some ''cloud'') ?w) = Inr ''cloud''"
    by (simp add: resolve_flavor_cases str_eval FLAVORS_def)
  have fl: "map_of fallbacks ''linux'' = Some (''Yo mama so bloated, even apt-get couldn''
              @ [CHR 0x27] @ ''t remove her dependencies.'')"
    by (simp add: fallbacks_def)
  have fk: "map_of fallbacks ''cloud'' = None"
    by (simp add: fallbacks_def)
  from other_failure_returns_fallback_joke [OF m c, of "Some ''linux''" 5 5 None]
  have a: "\<exists>w'. generate_joke example_unicode ?self (Some ''linux'') 5 5 None ?w
             = (Inr (''Yo mama so bloated, even apt-get couldn'' @ [CHR 0x27]
                  @ ''t remove her dependencies.''), w')"
    using l fl by auto
  from other_failure_returns_fallback_joke [OF m c, of "Some ''cloud''" 5 5 None]
  have b: "\<exists>w'. generate_joke example_unicode ?self (Some ''cloud'') 5 5 None ?w
             = (Inr ''Yo mama so outdated, even legacy systems moved on.'', w')"
    using k fk by (auto simp: generic_fallback_def)
  from m a b show ?thesis by blast
qed

section \<open>Clamping and flavor resolution\<close>

lemma on_failure_Inr:
  "\<exists>joke w'. on_failure U msg f w = (Inr joke, w') \<and> requests w' = requests w"
  by (cases "is_rate_limit U msg")
     (simp_all add: on_failure_rate_limit on_failure_other next_draw_def)

lemma generate_joke_Inr:
  "\<exists>joke w'. generate_joke U self flavor m n t w = (Inr joke, w')
      \<and> length (requests w') = Suc (length (requests w))"
proof -
  obtain f p where f: "fst (resolve_flavor U flavor w) = Inr f"
    and p: "build_prompt U f (clamp_level m) (clamp_level n) t = Inr p"
    using compose_Inr by blast
  let ?w2 = "(snd (resolve_flavor U flavor w))\<lparr>requests := requests w @ [(model_name self, p)]\<rparr>"
  have l: "length (requests ?w2) = Suc (length (requests w))" by simp
  show ?thesis
  proof (cases "client self (length (requests w)) (model_name self) p")
    case (Raises msg)
    obtain joke w' where "on_failure U msg f ?w2 = (Inr joke, w')" "requests w' = requests ?w2"
      using on_failure_Inr by blast
    then show ?thesis
      using l by (simp add: generate_joke_unfold [OF f p] Raises Let_def)
  next
    case (Response x)
    show ?thesis
    proof (cases x)
      case None
      obtain joke w' where "on_failure U none_strip_msg f ?w2 = (Inr joke, w')"
          "requests w' = requests ?w2"
        using on_failure_Inr by blast
      then show ?thesis
        using l by (simp add: generate_joke_unfold [OF f p] Response None Let_def)
    next
      case (Some body)
      then show ?thesis
        by (simp add: generate_joke_unfold [OF f p] Response Let_def)
    qed
  qed
qed

lemma compose_flavor:
  "map_sum id fst (fst (compose U flavor m n t w)) = fst (resolve_flavor U flavor w)"
  "snd (compose U flavor m n t w) = snd (resolve_flavor U flavor w)"
  using compose_Inr [of U flavor m n t w] by auto

text \<open>
  C3: for all integer levels, \<open>generate_joke\<close> clamps each into \<open>[1, 10]\<close> (below 1
  becomes 1, above 10 becomes 10) before \<open>_build_prompt\<close> subscripts the two guidance
  tables, so neither subscript raises \<open>KeyError\<close>: the composition step yields a prompt and
  \<open>generate_joke\<close> returns a value, for every input. The unclamped subscripts at 0 and
  at 11 would raise.
\<close>

theorem levels_clamped_before_lookup:
  "(\<exists>f p. compose U flavor meanness nerdiness target_name w
              = (Inr (f, p), snd (resolve_flavor U flavor w))
          \<and> build_prompt U f (clamp_level meanness) (clamp_level nerdiness) target_name = Inr p)
   \<and> clamp_level meanness = (if meanness < 1 then 1 else if 10 < meanness then 10 else meanness)
   \<and> clamp_level nerdiness = (if nerdiness < 1 then 1 else if 10 < nerdiness then 10 else nerdiness)
   \<and> (\<exists>phrase. getitem meanness_guide (clamp_level meanness) = Inr phrase)
   \<and> (\<exists>phrase. getitem nerdiness_guide (clamp_level nerdiness) = Inr phrase)
   \<and> (\<exists>joke w'. generate_joke U self flavor meanness nerdiness target_name w = (Inr joke, w'))
   \<and> getitem meanness_guide 0 = Inl KeyError \<and> getitem nerdiness_guide 11 = Inl KeyError"
proof -
  have a: "\<exists>f p. compose U flavor meanness nerdiness target_name w
              = (Inr (f, p), snd (resolve_flavor U flavor w))
          \<and> build_prompt U f (clamp_level meanness) (clamp_level nerdiness) target_name = Inr p"
    using compose_Inr by blast
  have b: "clamp_level x = (if x < 1 then 1 else if 10 < x then 10 else x)" for x
    by (simp add: clamp_level_def)
  have c: "\<exists>phrase. getitem meanness_guide (clamp_level meanness) = Inr phrase"
    using meanness_guide_total clamp_level_range by blast
  have d: "\<exists>phrase. getitem nerdiness_guide (clamp_level nerdiness) = Inr phrase"
    using nerdiness_guide_total clamp_level_range by blast
  have e: "\<exists>joke w'. generate_joke U self flavor meanness nerdiness target_name w = (Inr joke, w')"
    using generate_joke_Inr by blast
  have g: "getitem meanness_guide 0 = Inl KeyError" "getitem nerdiness_guide 11 = Inl KeyError"
    by (simp_all add: getitem_def meanness_guide_def nerdiness_guide_def)
  from a b [of meanness] b [of nerdiness] c d e g show ?thesis by blast
qed

theorem levels_clamped_before_lookup_witness:
  "clamp_level (- 3) = 1 \<and> clamp_level 42 = 10
   \<and> getitem meanness_guide (clamp_level (- 3))
        = Inr ''extremely gentle and wholesome, just playful teasing''
   \<and> getitem nerdiness_guide (clamp_level 42)
        = Inr ''use extremely obscure technical references only experts would get''
   \<and> (\<exists>joke w'. generate_joke example_unicode
          \<lparr>api_key = ''key'', model_name = ''gemini-2.5-flash-lite'',
            client = (\<lambda>n model contents. Response (Some ''  Yo mama so ...  ''))\<rparr>
          (Some ''tech'') (- 3) 42 None \<lparr>draws = (\<lambda>i. 3), requests = []\<rparr> = (Inr joke, w'))"
proof -
  let ?self = "\<lparr>api_key = ''key'', model_name = ''gemini-2.5-flash-lite'',
                 client = (\<lambda>n model contents. Response (Some ''  Yo mama so ...  ''))\<rparr>"
  let ?w = "\<lparr>draws = (\<lambda>i. 3), requests = []\<rparr>"
  have c: "clamp_level (- 3) = 1" "clamp_level 42 = 10"
    by (simp_all add: clamp_level_def)
  have g: "getitem meanness_guide 1 = Inr ''extremely gentle and wholesome, just playful teasing''"
      "getitem nerdiness_guide 10
         = Inr ''use extremely obscure technical references only experts would get''"
    by (simp_all add: getitem_def meanness_guide_def nerdiness_guide_def)
  from levels_clamped_before_lookup [of example_unicode "Some ''tech''" "- 3" 42 None ?w ?self]
  show ?thesis using c g by simp
qed

text \<open>
  C10: the membership test of line 88 is on the lowercased flavor. A flavor whose
  lowercasing is in \<open>FLAVORS\<close> is accepted: no draw is consumed, the lowercased tag goes
  into the prompt, and the lowercased tag selects the fallback joke when the remote call
  fails with a description that matches no throttling marker.
\<close>

theorem flavor_membership_case_insensitive:
  assumes "lower U f \<in> set FLAVORS"
  shows "resolve_flavor U (Some f) w = (Inr (lower U f), w)
    \<and> (\<exists>p. compose U (Some f) m n t w = (Inr (lower U f, p), w)
            \<and> build_prompt U (lower U f) (clamp_level m) (clamp_level n) t = Inr p)
    \<and> ((\<forall>prompt. client self (length (requests w)) (model_name self) prompt = Raises msg)
          \<and> \<not> is_rate_limit U msg
        \<longrightarrow> fst (generate_joke U self (Some f) m n t w) = Inr (get_fallback_joke (lower U f)))"
proof -
  have r: "resolve_flavor U (Some f) w = (Inr (lower U f), w)"
    using assms by (simp add: resolve_flavor_cases)
  obtain p where p: "build_prompt U (lower U f) (clamp_level m) (clamp_level n) t = Inr p"
    using build_prompt_in_range clamp_level_range by blast
  have c: "compose U (Some f) m n t w = (Inr (lower U f, p), w)"
    by (simp add: compose_def r p)
  have g: "fst (generate_joke U self (Some f) m n t w) = Inr (get_fallback_joke (lower U f))"
    if "\<forall>prompt. client self (length (requests w)) (model_name self) prompt = Raises msg"
      and "\<not> is_rate_limit U msg"
    using that generate_joke_unfold [of U "Some f" w "lower U f" m n t p self]
    by (simp add: r p on_failure_other Let_def)
  from r p c g show ?thesis by blast
qed

theorem flavor_membership_case_insensitive_witness:
  "lower example_unicode ''Linux'' \<in> set FLAVORS
   \<and> resolve_flavor example_unicode (Some ''Linux'') \<lparr>draws = (\<lambda>i. 3), requests = []\<rparr>
        = (Inr ''linux'', \<lparr>draws = (\<lambda>i. 3), requests = []\<rparr>)
   \<and> \<not> is_rate_limit example_unicode ''503 Service Unavailable''
   \<and> fst (generate_joke example_unicode
          \<lparr>api_key = ''key'', model_name = ''gemini-2.5-flash-lite'',
            client = (\<lambda>n model contents. Raises ''503 Service Unavailable'')\<rparr>
          (Some ''Linux'') 5 5 None \<lparr>draws = (\<lambda>i. 3), requests = []\<rparr>)
        = Inr (get_fallback_joke ''linux'')
   \<and> lower example_unicode (''NETWOR'' @ [CHR 0xE2, CHR 0x84, CHR 0xAA] @ ''ING'')
        \<in> set FLAVORS
   \<and> resolve_flavor example_unicode
          (Some (''NETWOR'' @ [CHR 0xE2, CHR 0x84, CHR 0xAA] @ ''ING''))
          \<lparr>draws = (\<lambda>i. 3), requests = []\<rparr>
        = (Inr ''networking'', \<lparr>draws = (\<lambda>i. 3), requests = []\<rparr>)"
proof -
  let ?msg = "''503 Service Unavailable''"
  let ?self = "\<lparr>api_key = ''key'', model_name = ''gemini-2.5-flash-lite'',
                 client = (\<lambda>n model contents. Raises ?msg)\<rparr>"
  let ?w = "\<lparr>draws = (\<lambda>i. 3), requests = []\<rparr>"
  let ?kelvin = "''NETWOR'' @ [CHR 0xE2, CHR 0x84, CHR 0xAA] @ ''ING''"
  have l: "lower example_unicode ''Linux'' = ''linux''"
    by (simp add: str_eval)
  have m: "lower example_unicode ''Linux'' \<in> set FLAVORS"
    by (simp add: l FLAVORS_def)
  have k: "lower example_unicode ?kelvin = ''networking''"
    by (simp add: str_eval example_unicode_def)
  have mk: "lower example_unicode ?kelvin \<in> set FLAVORS"
    by (simp only: k) (simp add: FLAVORS_def)
  have n: "\<not> is_rate_limit example_unicode ?msg"
    by (simp add: is_rate_limit_def str_in_def str_eval sublist_code)
  have c: "\<forall>prompt. client ?self (length (requests ?w)) (model_name ?self) prompt = Raises ?msg"
    by simp
  note t1 = flavor_membership_case_insensitive
    [OF m, where w = ?w and m = 5 and n = 5 and t = None and self = ?self and msg = ?msg]
  from t1 have a1: "resolve_flavor example_unicode (Some ''Linux'') ?w = (Inr ''linux'', ?w)"
    by (simp only: l)
  from t1 n c
  have a2: "fst (generate_joke example_unicode ?self (Some ''Linux'') 5 5 None ?w)
              = Inr (get_fallback_joke ''linux'')"
    by (simp only: l) blast
  note t2 = flavor_membership_case_insensitive
    [OF mk, where w = ?w and m = 5 and n = 5 and t = None and self = ?self and msg = ?msg]
  from t2 have a3: "resolve_flavor example_unicode (Some ?kelvin) ?w = (Inr ''networking'', ?w)"
    by (simp only: k)
  from m n a1 a2 mk a3 show ?thesis by (intro conjI)
qed

lemma nth_mod_member: "FLAVORS ! (d mod 13) \<in> set FLAVORS"
  by (simp add: length_FLAVORS)

lemma resolve_flavor_member:
  assumes "flavor \<noteq> Some []"
  shows "\<exists>g. fst (resolve_flavor U flavor w) = Inr g \<and> g \<in> set FLAVORS"
proof (cases flavor)
  case None
  then show ?thesis by (simp add: resolve_flavor_cases nth_mod_member)
next
  case (Some f)
  with assms have "f \<noteq> []" by simp
  then show ?thesis
    by (simp add: resolve_flavor_cases Some nth_mod_member)
qed

lemma FLAVORS_reachable:
  assumes "g \<in> set FLAVORS"
  shows "\<exists>d. FLAVORS ! (d mod 13) = g"
proof -
  from assms obtain i where "i < length FLAVORS" "FLAVORS ! i = g"
    by (auto simp: in_set_conv_nth)
  then have "FLAVORS ! (i mod 13) = g" by (simp add: length_FLAVORS)
  then show ?thesis ..
qed

lemma lower_Nil: "lower U [] = []"
  by (simp add: lower_def)

lemma lower_TECH: "lower U ''TECH'' = ''tech''"
  by (simp add: str_eval)

lemma build_prompt_5_5:
  "build_prompt U g 5 5 None =
     Inr (prompt_text g (get_default flavor_contexts g ''general technology'') ''5''
            ''balanced roasting, noticeable but not harsh'' ''5''
            ''use technical jargon that tech-savvy people know'' ''yo mama'' ''Yo mama'')"
  by (simp add: build_prompt_def getitem_def meanness_guide_def nerdiness_guide_def str_int_def
        upper_char_def str_eval)

lemma compose_prompt:
  "map_sum id snd (fst (compose U flavor m n t w)) =
     (case fst (resolve_flavor U flavor w) of
        Inl e \<Rightarrow> Inl e
      | Inr g \<Rightarrow> build_prompt U g (clamp_level m) (clamp_level n) t)"
  using compose_Inr [of U flavor m n t w] by auto

lemma prompt_text_first_char:
  assumes "x \<noteq> y"
  shows "prompt_text (x # g) c m mp n np t tc \<noteq> prompt_text (y # g') c' m' mp' n' np' t' tc'"
  unfolding prompt_text_def using assms
  by (simp only: append_assoc same_append_eq append_Cons list.inject simp_thms not_False_eq_True)

lemma clamp_5: "clamp_level 5 = 5"
  by (simp add: clamp_level_def)

text \<open>
  A non-empty flavor whose lowercasing is not in \<open>FLAVORS\<close> is dropped and replaced by
  the member of \<open>FLAVORS\<close> that the next draw picks, as for a missing flavor; every flavor
  input but the empty string resolves to a member of \<open>FLAVORS\<close>.
\<close>

lemma unknown_nonempty_flavor_substituted:
  "(f \<noteq> [] \<and> lower U f \<notin> set FLAVORS \<longrightarrow>
      (\<exists>p. compose U (Some f) m n t w
              = (Inr (FLAVORS ! (draws w 0 mod length FLAVORS), p), next_draw w))
      \<and> compose U (Some f) m n t w = compose U None m n t w)
   \<and> (flavor \<noteq> Some [] \<longrightarrow>
        (\<exists>g p w'. compose U flavor m n t w = (Inr (g, p), w') \<and> g \<in> set FLAVORS))
   \<and> (\<forall>g \<in> set FLAVORS. \<exists>d. FLAVORS ! (d mod length FLAVORS) = g)"
proof -
  have a: "(\<exists>p. compose U (Some f) m n t w
              = (Inr (FLAVORS ! (draws w 0 mod length FLAVORS), p), next_draw w))
      \<and> compose U (Some f) m n t w = compose U None m n t w"
    if "f \<noteq> []" "lower U f \<notin> set FLAVORS"
  proof -
    have r: "resolve_flavor U (Some f) w = (Inr (FLAVORS ! (draws w 0 mod 13)), next_draw w)"
      using that by (simp add: resolve_flavor_cases)
    have r': "resolve_flavor U None w = (Inr (FLAVORS ! (draws w 0 mod 13)), next_draw w)"
      by (simp add: resolve_flavor_cases)
    obtain p where p: "build_prompt U (FLAVORS ! (draws w 0 mod 13)) (clamp_level m) (clamp_level n) t = Inr p"
      using build_prompt_in_range clamp_level_range by blast
    show ?thesis
      by (simp add: compose_def r r' p length_FLAVORS)
  qed
  have b: "\<exists>g p w'. compose U flavor m n t w = (Inr (g, p), w') \<and> g \<in> set FLAVORS"
    if "flavor \<noteq> Some []"
    using resolve_flavor_member [OF that, of U w] compose_Inr [of U flavor m n t w] by auto
  have c: "\<forall>g \<in> set FLAVORS. \<exists>d. FLAVORS ! (d mod length FLAVORS) = g"
    using FLAVORS_reachable by (simp add: length_FLAVORS)
  from a b c show ?thesis by blast
qed


lemma empty_flavor_context:
  "get_default flavor_contexts [] ''general technology'' = ''general technology''"
  by (simp add: get_default_def flavor_contexts_def)

text \<open>
  C4: the code at the empty string. The empty string is not in \<open>FLAVORS\<close>, yet
  \<open>if flavor and ...\<close> is false for it and so is \<open>flavor is None\<close>: no draw is made, the
  empty string itself is the resolved flavor, and the prompt reads
  \<open>THEME/FLAVOR:  - Focus on general technology\<close>. A missing flavor, on the sibling
  path, is replaced by the member of \<open>FLAVORS\<close> that the next draw picks.
\<close>

theorem empty_flavor_kept:
  "[] \<notin> set FLAVORS
   \<and> resolve_flavor U (Some []) w = (Inr [], w)
   \<and> (\<exists>p. compose U (Some []) 5 5 None w = (Inr ([], p), w)
          \<and> str_in ''THEME/FLAVOR:  - Focus on general technology'' p)
   \<and> resolve_flavor U None w = (Inr (FLAVORS ! (draws w 0 mod length FLAVORS)), next_draw w)"
proof -
  let ?p = "prompt_text [] ''general technology''
      ''5'' ''balanced roasting, noticeable but not harsh'' ''5''
      ''use technical jargon that tech-savvy people know'' ''yo mama'' ''Yo mama''"
  have a: "[] \<notin> set FLAVORS"
    by (simp add: FLAVORS_def)
  have r: "resolve_flavor U (Some []) w = (Inr [], w)"
    by (simp add: resolve_flavor_cases lower_Nil)
  have c: "compose U (Some []) 5 5 None w = (Inr ([], ?p), w)"
    by (simp add: compose_def r clamp_5 build_prompt_5_5 empty_flavor_context)
  have s: "str_in ''THEME/FLAVOR:  - Focus on general technology'' ?p"
    by code_simp
  have n: "resolve_flavor U None w
             = (Inr (FLAVORS ! (draws w 0 mod length FLAVORS)), next_draw w)"
    by (simp add: resolve_flavor_cases length_FLAVORS)
  from a r c s n show ?thesis by blast
qed

text \<open>
  C5, as stated, fails: with the flavor absent, two calls of the composition step with
  the same arguments \<open>(None, 5, 5, None)\<close> give different request texts when the random
  draws differ (one prompt is about \<open>classic\<close>, the other about \<open>tech\<close>).
\<close>

theorem compose_deterministic_counterexample:
  "map_sum id snd (fst (compose example_unicode None 5 5 None \<lparr>draws = (\<lambda>i. 0), requests = []\<rparr>))
     \<noteq> map_sum id snd (fst (compose example_unicode None 5 5 None \<lparr>draws = (\<lambda>i. 2), requests = []\<rparr>))"
proof -
  have a: "fst (resolve_flavor example_unicode None \<lparr>draws = (\<lambda>i. 0), requests = []\<rparr>) = Inr ''classic''"
    by (simp add: resolve_flavor_cases FLAVORS_def)
  have b: "fst (resolve_flavor example_unicode None \<lparr>draws = (\<lambda>i. 2), requests = []\<rparr>) = Inr ''tech''"
    by (simp add: resolve_flavor_cases FLAVORS_def)
  have "CHR ''c'' \<noteq> CHR ''t''" by simp
  then show ?thesis
    by (simp only: compose_prompt a b sum.case clamp_5 build_prompt_5_5 sum.inject
          prompt_text_first_char not_False_eq_True)
qed

text \<open>
  C5, amended: for a flavor whose lowercasing is in \<open>FLAVORS\<close>, the composition step gives
  the same flavor and request text for the same arguments, whatever the state of the
  random module; for any flavor input, absent and unknown ones included, two calls with
  the same arguments give the same flavor and text when the next draw of \<open>random.choice\<close>
  picks the same index.
\<close>

theorem compose_deterministic:
  "(lower U f \<in> set FLAVORS \<longrightarrow>
      fst (compose U (Some f) m n t w1) = fst (compose U (Some f) m n t w2))
   \<and> (draws w1 0 mod length FLAVORS = draws w2 0 mod length FLAVORS \<longrightarrow>
      fst (compose U flavor m n t w1) = fst (compose U flavor m n t w2))"
proof -
  have "fst (resolve_flavor U (Some f) w1) = fst (resolve_flavor U (Some f) w2)"
    if "lower U f \<in> set FLAVORS"
    using that by (simp add: resolve_flavor_cases)
  moreover have "fst (resolve_flavor U flavor w1) = fst (resolve_flavor U flavor w2)"
    if "draws w1 0 mod length FLAVORS = draws w2 0 mod length FLAVORS"
    using that by (simp add: resolve_flavor_cases length_FLAVORS split: option.split)
  moreover have "fst (compose U fl m n t w1) = fst (compose U fl m n t w2)"
    if "fst (resolve_flavor U fl w1) = fst (resolve_flavor U fl w2)" for fl
  proof -
    obtain g where g: "fst (resolve_flavor U fl w1) = Inr g"
      using resolve_flavor_Inr by blast
    obtain u1 where u1: "resolve_flavor U fl w1 = (Inr g, u1)"
      using g by (cases "resolve_flavor U fl w1") simp
    have g2: "fst (resolve_flavor U fl w2) = Inr g"
      using g that by simp
    obtain u2 where u2: "resolve_flavor U fl w2 = (Inr g, u2)"
      using g2 by (cases "resolve_flavor U fl w2") simp
    show ?thesis
      by (simp add: compose_def u1 u2 split: sum.split)
  qed
  ultimately show ?thesis by blast
qed

theorem compose_deterministic_witness:
  "lower example_unicode ''TECH'' \<in> set FLAVORS
   \<and> fst (compose example_unicode (Some ''TECH'') 5 5 None \<lparr>draws = (\<lambda>i. 0), requests = []\<rparr>)
       = fst (compose example_unicode (Some ''TECH'') 5 5 None \<lparr>draws = (\<lambda>i. 2), requests = [(''m'', ''p'')]\<rparr>)
   \<and> draws \<lparr>draws = (\<lambda>i. 1), requests = []\<rparr> 0 mod length FLAVORS
       = draws \<lparr>draws = (\<lambda>i. 14 + i), requests = []\<rparr> 0 mod length FLAVORS
   \<and> fst (compose example_unicode None 5 5 None \<lparr>draws = (\<lambda>i. 1), requests = []\<rparr>)
       = fst (compose example_unicode None 5 5 None \<lparr>draws = (\<lambda>i. 14 + i), requests = []\<rparr>)"
proof -
  have a: "lower example_unicode ''TECH'' \<in> set FLAVORS"
    by (simp add: lower_TECH FLAVORS_def)
  have b: "draws \<lparr>draws = (\<lambda>i. 1), requests = []\<rparr> 0 mod length FLAVORS
       = draws \<lparr>draws = (\<lambda>i. 14 + i), requests = []\<rparr> 0 mod length FLAVORS"
    by (simp add: length_FLAVORS)
  from compose_deterministic [of example_unicode "''TECH''" 5 5 None "\<lparr>draws = (\<lambda>i. 0), requests = []\<rparr>"
      "\<lparr>draws = (\<lambda>i. 2), requests = [(''m'', ''p'')]\<rparr>"] a
  have c: "fst (compose example_unicode (Some ''TECH'') 5 5 None \<lparr>draws = (\<lambda>i. 0), requests = []\<rparr>)
       = fst (compose example_unicode (Some ''TECH'') 5 5 None \<lparr>draws = (\<lambda>i. 2), requests = [(''m'', ''p'')]\<rparr>)"
    by blast
  from compose_deterministic [of example_unicode _ 5 5 None "\<lparr>draws = (\<lambda>i. 1), requests = []\<rparr>"
      "\<lparr>draws = (\<lambda>i. 14 + i), requests = []\<rparr>" None] b
  have d: "fst (compose example_unicode None 5 5 None \<lparr>draws = (\<lambda>i. 1), requests = []\<rparr>)
       = fst (compose example_unicode None 5 5 None \<lparr>draws = (\<lambda>i. 14 + i), requests = []\<rparr>)"
    by blast
  from a b c d show ?thesis by blast
qed

section \<open>The end-to-end prompt\<close>

lemma tech_context:
  "get_default flavor_contexts ''tech'' ''general technology'' =
     ''technology, computers, software, hardware, operating systems, IT support, tech companies''"
  by (simp add: get_default_def flavor_contexts_def)

text \<open>
  C9: for \<open>flavor = 'tech'\<close>, levels 5 and 5 and no target name, the composition step
  yields a prompt that contains \<open>Yo mama so\<close>, contains the context phrase of the \<open>tech\<close>
  flavor and the line \<open>THEME/FLAVOR: tech\<close>, and contains no brace, hence none of the
  template's placeholders \<open>{flavor}\<close>, \<open>{flavor_context}\<close>, \<open>{meanness}\<close>,
  \<open>{nerdiness}\<close>, \<open>{target}\<close>. No draw is consumed.
\<close>

theorem tech_prompt_contents:
  "\<exists>p. compose U (Some ''tech'') 5 5 None w = (Inr (''tech'', p), w)
      \<and> str_in ''Yo mama so'' p
      \<and> str_in ''technology, computers, software, hardware, operating systems, IT support, tech companies'' p
      \<and> str_in ''THEME/FLAVOR: tech'' p
      \<and> CHR ''{'' \<notin> set p \<and> CHR ''}'' \<notin> set p
      \<and> \<not> str_in ''{flavor}'' p \<and> \<not> str_in ''{target}'' p"
proof -
  let ?p = "prompt_text ''tech''
      ''technology, computers, software, hardware, operating systems, IT support, tech companies''
      ''5'' ''balanced roasting, noticeable but not harsh'' ''5''
      ''use technical jargon that tech-savvy people know'' ''yo mama'' ''Yo mama''"
  have l: "lower U ''tech'' = ''tech''"
    by (simp add: str_eval)
  have r: "resolve_flavor U (Some ''tech'') w = (Inr ''tech'', w)"
    by (simp add: resolve_flavor_cases l FLAVORS_def)
  have c: "compose U (Some ''tech'') 5 5 None w = (Inr (''tech'', ?p), w)"
    by (simp add: compose_def r clamp_5 build_prompt_5_5 tech_context)
  have a1: "str_in ''Yo mama so'' ?p"
    by code_simp
  have a2: "str_in ''technology, computers, software, hardware, operating systems, IT support, tech companies'' ?p"
    by code_simp
  have a3: "str_in ''THEME/FLAVOR: tech'' ?p"
    by code_simp
  have a4: "CHR ''{'' \<notin> set ?p \<and> CHR ''}'' \<notin> set ?p"
    by code_simp
  have a5: "\<not> str_in ''{flavor}'' ?p \<and> \<not> str_in ''{target}'' ?p"
    using a4 by (auto simp: str_in_def dest: set_mono_sublist)
  from c a1 a2 a3 a4 a5 show ?thesis by blast
qed

section \<open>Batches and random jokes\<close>

lemma get_fallback_joke_member:
  "get_fallback_joke f \<in> snd ` set fallbacks \<union> {generic_fallback}"
proof (cases "map_of fallbacks f")
  case None
  then show ?thesis by (simp add: get_fallback_joke_def get_default_def)
next
  case (Some j)
  then have "(f, j) \<in> set fallbacks" by (rule map_of_SomeD)
  then have "j \<in> snd ` set fallbacks" by force
  then show ?thesis by (simp add: get_fallback_joke_def get_default_def Some)
qed

lemma on_failure_member:
  "\<exists>joke w'. on_failure U msg f w = (Inr joke, w') \<and> requests w' = requests w
      \<and> joke \<in> set rate_limit_jokes \<union> snd ` set fallbacks \<union> {generic_fallback}"
proof (cases "is_rate_limit U msg")
  case True
  have "rate_limit_jokes ! (draws w 0 mod 6) \<in> set rate_limit_jokes"
    by (simp add: length_rate_limit_jokes)
  then show ?thesis
    by (simp add: on_failure_rate_limit [OF True] next_draw_def)
next
  case False
  show ?thesis
    using get_fallback_joke_member [of f] by (auto simp: on_failure_other [OF False])
qed

lemma generate_joke_failing:
  assumes "\<forall>k model contents. \<exists>msg. client self k model contents = Raises msg"
  shows "\<exists>joke w'. generate_joke U self flavor m n t w = (Inr joke, w')
      \<and> joke \<in> set rate_limit_jokes \<union> snd ` set fallbacks \<union> {generic_fallback}"
proof -
  obtain f p where f: "fst (resolve_flavor U flavor w) = Inr f"
    and p: "build_prompt U f (clamp_level m) (clamp_level n) t = Inr p"
    using compose_Inr by blast
  obtain msg where msg: "client self (length (requests w)) (model_name self) p = Raises msg"
    using assms by blast
  let ?w2 = "(snd (resolve_flavor U flavor w))\<lparr>requests := requests w @ [(model_name self, p)]\<rparr>"
  obtain joke w' where "on_failure U msg f ?w2 = (Inr joke, w')"
    "joke \<in> set rate_limit_jokes \<union> snd ` set fallbacks \<union> {generic_fallback}"
    using on_failure_member by blast
  then show ?thesis
    by (simp add: generate_joke_unfold [OF f p] msg Let_def)
qed


lemma batch_loop_acc:
  "batch_loop call k jokes w
     = (jokes @ fst (batch_loop call k [] w), snd (batch_loop call k [] w))"
proof (induction k arbitrary: jokes w)
  case 0
  then show ?case by simp
next
  case (Suc k)
  obtain r w1 where c: "call w = (r, w1)" by (cases "call w")
  show ?case
  proof (cases r)
    case (Inl e)
    then show ?thesis using Suc.IH [of jokes w1] by (simp add: c)
  next
    case (Inr joke)
    then show ?thesis
      using Suc.IH [of "jokes @ [joke]" w1] Suc.IH [of "[joke]" w1] by (simp add: c)
  qed
qed

lemma batch_loop_unroll:
  "batch_loop call (Suc k) [] w =
     (case call w of
        (r, w1) \<Rightarrow>
          (case batch_loop call k [] w1 of
             (js, w2) \<Rightarrow> ((case r of Inl e \<Rightarrow> js | Inr joke \<Rightarrow> joke # js), w2)))"
proof -
  obtain r w1 where c: "call w = (r, w1)" by (cases "call w")
  show ?thesis
  proof (cases r)
    case (Inl e)
    then show ?thesis by (simp add: c split: prod.split)
  next
    case (Inr joke)
    then show ?thesis
      using batch_loop_acc [of call k "[joke]" w1] by (simp add: c split: prod.split)
  qed
qed

lemma batch_loop_length_acc:
  "length (fst (batch_loop call k jokes w)) \<le> length jokes + k"
proof (induction k arbitrary: jokes w)
  case 0
  then show ?case by simp
next
  case (Suc k)
  obtain r w1 where c: "call w = (r, w1)" by (cases "call w")
  show ?case
  proof (cases r)
    case (Inl e)
    then show ?thesis using Suc.IH [of jokes w1] by (simp add: c)
  next
    case (Inr joke)
    then show ?thesis using Suc.IH [of "jokes @ [joke]" w1] by (simp add: c)
  qed
qed

lemma batch_loop_length_le: "length (fst (batch_loop call k [] w)) \<le> k"
  using batch_loop_length_acc [of call k "[]" w] by simp

lemma generate_batch_unroll:
  "generate_batch U self count flavor m n t w =
     (if count \<le> 0 then ([], w)
      else (case generate_joke U self flavor m n t w of
              (r, w1) \<Rightarrow>
                (case generate_batch U self (count - 1) flavor m n t w1 of
                   (js, w2) \<Rightarrow> ((case r of Inl e \<Rightarrow> js | Inr joke \<Rightarrow> joke # js), w2))))"
proof (cases "count \<le> 0")
  case True
  then show ?thesis by (simp add: generate_batch_def)
next
  case False
  then have s: "nat count = Suc (nat (count - 1))" by simp
  show ?thesis
    unfolding generate_batch_def using False
    by (simp only: s batch_loop_unroll if_False)
qed

lemma generate_batch_length:
  "length (fst (generate_batch U self count flavor m n t w)) = nat count
   \<and> length (requests (snd (generate_batch U self count flavor m n t w)))
        = length (requests w) + nat count"
proof -
  have "length (fst (batch_loop (generate_joke U self flavor m n t) k jokes v)) = length jokes + k
     \<and> length (requests (snd (batch_loop (generate_joke U self flavor m n t) k jokes v)))
          = length (requests v) + k" for k jokes v
  proof (induction k arbitrary: jokes v)
    case 0
    then show ?case by simp
  next
    case (Suc k)
    obtain joke v' where g: "generate_joke U self flavor m n t v = (Inr joke, v')"
      and l: "length (requests v') = Suc (length (requests v))"
      using generate_joke_Inr by blast
    show ?case
      using Suc.IH [of "jokes @ [joke]" v'] by (simp add: g l)
  qed
  from this [of "nat count" "[]" w] show ?thesis
    by (simp add: generate_batch_def)
qed

lemma batch_loop_failing:
  assumes "\<forall>k model contents. \<exists>msg. client self k model contents = Raises msg"
  shows "set (fst (batch_loop (generate_joke U self flavor m n t) k jokes w))
           \<subseteq> set jokes \<union> (set rate_limit_jokes \<union> snd ` set fallbacks \<union> {generic_fallback})"
proof (induction k arbitrary: jokes w)
  case 0
  then show ?case by auto
next
  case (Suc k)
  obtain joke w' where g: "generate_joke U self flavor m n t w = (Inr joke, w')"
    and j: "joke \<in> set rate_limit_jokes \<union> snd ` set fallbacks \<union> {generic_fallback}"
    using generate_joke_failing [OF assms] by blast
  show ?case
    using Suc.IH [of "jokes @ [joke]" w'] j by (auto simp: g)
qed

lemma batch_loop_other_failure:
  assumes fails: "\<forall>k model contents. client self k model contents = Raises msg"
    and other: "\<not> is_rate_limit U msg"
    and known: "lower U f \<in> set FLAVORS"
  shows "fst (batch_loop (generate_joke U self (Some f) m n t) k jokes w)
           = jokes @ replicate k (get_fallback_joke (lower U f))"
proof (induction k arbitrary: jokes w)
  case 0
  then show ?case by simp
next
  case (Suc k)
  have r: "resolve_flavor U (Some f) w = (Inr (lower U f), w)"
    using known by (simp add: resolve_flavor_cases)
  obtain p where p: "build_prompt U (lower U f) (clamp_level m) (clamp_level n) t = Inr p"
    using build_prompt_in_range clamp_level_range by blast
  have g: "generate_joke U self (Some f) m n t w
             = (Inr (get_fallback_joke (lower U f)),
                w\<lparr>requests := requests w @ [(model_name self, p)]\<rparr>)"
    using generate_joke_unfold [of U "Some f" w "lower U f" m n t p self]
    by (simp add: r p fails on_failure_other [OF other] Let_def)
  show ?case
    by (simp add: g Suc.IH replicate_app_Cons_same)
qed

text \<open>
  C6: \<open>generate_batch\<close> returns a list and raises nothing. It is the sequence of the
  results of \<open>count\<close> calls of \<open>generate_joke\<close>, made one after the other, each on the
  state the one before left (no call for a count below 1): \<open>count\<close> requests reach the
  remote service. An item call that raises only drops that item: the rounds after it
  still run and their jokes are kept (stated for any item call, since \<open>generate_joke\<close>
  itself raises on no input), so the list has at most \<open>count\<close> elements, and with
  \<open>generate_joke\<close> exactly \<open>count\<close>. When every remote call raises, a batch of 5 is a
  list of 5 jokes, each a throttling joke, a per-flavor fallback or the generic fallback.
\<close>

theorem generate_batch_sequence:
  "generate_batch U self count flavor m n t w =
     (if count \<le> 0 then ([], w)
      else (case generate_joke U self flavor m n t w of
              (r, w1) \<Rightarrow>
                (case generate_batch U self (count - 1) flavor m n t w1 of
                   (js, w2) \<Rightarrow> ((case r of Inl e \<Rightarrow> js | Inr joke \<Rightarrow> joke # js), w2))))
   \<and> batch_loop call (Suc k) [] w =
        (case call w of
           (r, w1) \<Rightarrow>
             (case batch_loop call k [] w1 of
                (js, w2) \<Rightarrow> ((case r of Inl e \<Rightarrow> js | Inr joke \<Rightarrow> joke # js), w2)))
   \<and> length (fst (batch_loop call k [] w)) \<le> k
   \<and> length (fst (generate_batch U self count flavor m n t w)) = nat count
   \<and> length (requests (snd (generate_batch U self count flavor m n t w)))
        = length (requests w) + nat count
   \<and> ((\<forall>k model contents. \<exists>msg. client self k model contents = Raises msg) \<longrightarrow>
        length (fst (generate_batch U self 5 flavor m n t w)) = 5
        \<and> fst (generate_batch U self 5 flavor m n t w) \<noteq> []
        \<and> set (fst (generate_batch U self count flavor m n t w))
             \<subseteq> set rate_limit_jokes \<union> snd ` set fallbacks \<union> {generic_fallback})"
proof -
  have b: "set (fst (generate_batch U self count flavor m n t w))
             \<subseteq> set rate_limit_jokes \<union> snd ` set fallbacks \<union> {generic_fallback}"
    if "\<forall>k model contents. \<exists>msg. client self k model contents = Raises msg"
    using batch_loop_failing [OF that, of U flavor m n t "nat count" "[]" w]
    by (simp add: generate_batch_def)
  have l5: "length (fst (generate_batch U self 5 flavor m n t w)) = 5"
    using generate_batch_length [of U self 5 flavor m n t w] by simp
  then have c: "fst (generate_batch U self 5 flavor m n t w) \<noteq> []"
    by auto
  have imp: "(\<forall>k model contents. \<exists>msg. client self k model contents = Raises msg) \<longrightarrow>
        length (fst (generate_batch U self 5 flavor m n t w)) = 5
        \<and> fst (generate_batch U self 5 flavor m n t w) \<noteq> []
        \<and> set (fst (generate_batch U self count flavor m n t w))
             \<subseteq> set rate_limit_jokes \<union> snd ` set fallbacks \<union> {generic_fallback}"
    using b l5 c by blast
  note gl = generate_batch_length [of U self count flavor m n t w]
  from generate_batch_unroll [of U self count flavor m n t w]
    batch_loop_unroll [of call k w] batch_loop_length_le [of call k w]
    gl [THEN conjunct1] gl [THEN conjunct2] imp
  show ?thesis by (intro conjI) assumption+
qed

theorem generate_batch_sequence_witness:
  "(\<forall>k model contents. \<exists>msg.
      client \<lparr>api_key = ''key'', model_name = ''gemini-2.5-flash-lite'',
               client = (\<lambda>n model contents. Raises ''503 Service Unavailable'')\<rparr>
        k model contents = Raises msg)
   \<and> fst (generate_batch example_unicode
        \<lparr>api_key = ''key'', model_name = ''gemini-2.5-flash-lite'',
          client = (\<lambda>n model contents. Raises ''503 Service Unavailable'')\<rparr>
        5 (Some ''tech'') 5 5 None \<lparr>draws = (\<lambda>i. i), requests = []\<rparr>)
       = replicate 5 ''Yo mama so slow, buffering gives up and goes home.''
   \<and> length (requests (snd (generate_batch example_unicode
        \<lparr>api_key = ''key'', model_name = ''gemini-2.5-flash-lite'',
          client = (\<lambda>n model contents. Raises ''503 Service Unavailable'')\<rparr>
        5 (Some ''tech'') 5 5 None \<lparr>draws = (\<lambda>i. i), requests = []\<rparr>))) = 5
   \<and> set (fst (generate_batch example_unicode
        \<lparr>api_key = ''key'', model_name = ''gemini-2.5-flash-lite'',
          client = (\<lambda>n model contents. Raises ''503 Service Unavailable'')\<rparr>
        5 (Some ''tech'') 5 5 None \<lparr>draws = (\<lambda>i. i), requests = []\<rparr>))
       \<subseteq> set rate_limit_jokes \<union> snd ` set fallbacks \<union> {generic_fallback}
   \<and> fst (batch_loop
        (\<lambda>v. if length (requests v) = 1
              then (Inl KeyError, v\<lparr>requests := requests v @ [(''m'', ''p'')]\<rparr>)
              else (Inr ''joke'', v\<lparr>requests := requests v @ [(''m'', ''p'')]\<rparr>))
        (Suc (Suc (Suc 0))) [] \<lparr>draws = (\<lambda>i. i), requests = []\<rparr>)
       = [''joke'', ''joke'']"
proof -
  let ?self = "\<lparr>api_key = ''key'', model_name = ''gemini-2.5-flash-lite'',
                 client = (\<lambda>n model contents. Raises ''503 Service Unavailable'')\<rparr>"
  let ?w = "\<lparr>draws = (\<lambda>i. i), requests = []\<rparr>"
  let ?call = "\<lambda>v. if length (requests v) = 1
              then (Inl KeyError, v\<lparr>requests := requests v @ [(''m'', ''p'')]\<rparr>)
              else (Inr ''joke'', v\<lparr>requests := requests v @ [(''m'', ''p'')]\<rparr>)"
  have c: "\<forall>k model contents. \<exists>msg. client ?self k model contents = Raises msg"
    by simp
  have c': "\<forall>k model contents. client ?self k model contents = Raises ''503 Service Unavailable''"
    by simp
  have n: "\<not> is_rate_limit example_unicode ''503 Service Unavailable''"
    by (simp add: is_rate_limit_def str_in_def str_eval sublist_code)
  have l: "lower example_unicode ''tech'' = ''tech''"
    by (simp add: str_eval)
  have k: "lower example_unicode ''tech'' \<in> set FLAVORS"
    by (simp add: l FLAVORS_def)
  have f: "get_fallback_joke ''tech'' = ''Yo mama so slow, buffering gives up and goes home.''"
    by (simp add: get_fallback_joke_def get_default_def fallbacks_def)
  have e: "fst (generate_batch example_unicode ?self 5 (Some ''tech'') 5 5 None ?w)
             = replicate 5 ''Yo mama so slow, buffering gives up and goes home.''"
    unfolding generate_batch_def batch_loop_other_failure [OF c' n k] l f by simp
  note t = generate_batch_sequence
    [where U = example_unicode and self = ?self and count = 5 and flavor = "Some ''tech''"
       and m = 5 and n = 5 and t = None and w = ?w and call = ?call and k = "Suc (Suc 0)"]
  note reqs = t [THEN conjunct2, THEN conjunct2, THEN conjunct2, THEN conjunct2, THEN conjunct1]
  note fb = t [THEN conjunct2, THEN conjunct2, THEN conjunct2, THEN conjunct2, THEN conjunct2,
      THEN mp, OF c, THEN conjunct2, THEN conjunct2]
  have r: "length (requests (snd (generate_batch example_unicode ?self 5 (Some ''tech'') 5 5
              None ?w))) = 5"
    using reqs by simp
  have s: "set (fst (generate_batch example_unicode ?self 5 (Some ''tech'') 5 5 None ?w))
         \<subseteq> set rate_limit_jokes \<union> snd ` set fallbacks \<union> {generic_fallback}"
    using fb .
  have b: "fst (batch_loop ?call (Suc (Suc (Suc 0))) [] ?w) = [''joke'', ''joke'']"
    by simp
  from c e r s b show ?thesis by (intro conjI)
qed

lemma random_randint_3_7:
  "random_randint 3 7 w = (Inr (3 + int (draws w 0 mod 5)), next_draw w)"
  by (simp add: random_randint_def)

lemma random_joke_args_eq:
  "random_joke_args w =
     (Inr (FLAVORS ! (draws w 0 mod 13), 3 + int (draws w 1 mod 5), 3 + int (draws w 2 mod 5)),
      next_draw (next_draw (next_draw w)))"
  by (simp add: random_joke_args_def random_choice_def FLAVORS_nonempty length_FLAVORS
        random_randint_3_7 next_draw_def numeral_2_eq_2)

lemma FLAVORS_lower: "f \<in> set FLAVORS \<Longrightarrow> lower U f = f"
  by (auto simp: FLAVORS_def str_eval)

text \<open>
  C8: \<open>random_joke\<close> draws a flavor from \<open>FLAVORS\<close> (the list \<open>list_flavors\<close> returns) and
  two levels from \<open>[3, 7]\<close>, and calls \<open>generate_joke\<close> with exactly these and no target
  name; downstream the flavor is kept as it is and the clamp leaves both levels
  unchanged. Every flavor of the list and every pair of levels of \<open>[3, 7]\<close> is drawn by
  some state of the random module.
\<close>

theorem random_joke_delegates_in_range:
  "(\<exists>f a b w'. random_joke_args w = (Inr (f, a, b), w')
      \<and> random_joke U self w = generate_joke U self (Some f) a b None w'
      \<and> f \<in> set list_flavors \<and> 3 \<le> a \<and> a \<le> 7 \<and> 3 \<le> b \<and> b \<le> 7
      \<and> resolve_flavor U (Some f) w' = (Inr f, w')
      \<and> clamp_level a = a \<and> clamp_level b = b)
   \<and> (\<forall>g \<in> set list_flavors. \<forall>x \<in> {3..7}. \<forall>y \<in> {3..7}.
        \<exists>w0. fst (random_joke_args w0) = Inr (g, x, y))"
proof -
  let ?f = "FLAVORS ! (draws w 0 mod 13)"
  let ?a = "3 + int (draws w 1 mod 5)"
  let ?b = "3 + int (draws w 2 mod 5)"
  let ?w = "next_draw (next_draw (next_draw w))"
  have f: "?f \<in> set FLAVORS" by (simp add: length_FLAVORS)
  have r: "resolve_flavor U (Some ?f) ?w = (Inr ?f, ?w)"
    using f by (simp add: resolve_flavor_cases FLAVORS_lower)
  have "random_joke_args w = (Inr (?f, ?a, ?b), ?w)
      \<and> random_joke U self w = generate_joke U self (Some ?f) ?a ?b None ?w
      \<and> ?f \<in> set list_flavors \<and> 3 \<le> ?a \<and> ?a \<le> 7 \<and> 3 \<le> ?b \<and> ?b \<le> 7
      \<and> resolve_flavor U (Some ?f) ?w = (Inr ?f, ?w)
      \<and> clamp_level ?a = ?a \<and> clamp_level ?b = ?b"
  proof -
    have "draws w 1 mod 5 < 5" "draws w 2 mod 5 < 5" by simp_all
    then have "3 \<le> ?a \<and> ?a \<le> 7 \<and> 3 \<le> ?b \<and> ?b \<le> 7" by linarith
    then show ?thesis
      using f r by (simp add: random_joke_args_eq random_joke_def list_flavors_def clamp_level_def)
  qed
  then have first: "\<exists>f a b w'. random_joke_args w = (Inr (f, a, b), w')
      \<and> random_joke U self w = generate_joke U self (Some f) a b None w'
      \<and> f \<in> set list_flavors \<and> 3 \<le> a \<and> a \<le> 7 \<and> 3 \<le> b \<and> b \<le> 7
      \<and> resolve_flavor U (Some f) w' = (Inr f, w')
      \<and> clamp_level a = a \<and> clamp_level b = b"
    by blast
  have second: "\<exists>w0. fst (random_joke_args w0) = Inr (g, x, y)"
    if g: "g \<in> set list_flavors" and x: "x \<in> {3..7}" and y: "y \<in> {3..7}" for g and x y :: int
  proof -
    from g obtain i where i: "i < 13" "FLAVORS ! i = g"
      by (auto simp: list_flavors_def in_set_conv_nth length_FLAVORS)
    let ?d = "\<lambda>k::nat. if k = 0 then i else if k = 1 then nat (x - 3) else nat (y - 3)"
    have "nat (x - 3) < 5" "nat (y - 3) < 5" using x y by auto
    then have "3 + int (nat (x - 3) mod 5) = x" "3 + int (nat (y - 3) mod 5) = y"
      using x y by auto
    then have "fst (random_joke_args \<lparr>draws = ?d, requests = []\<rparr>) = Inr (g, x, y)"
      using i by (simp add: random_joke_args_eq)
    then show ?thesis ..
  qed
  from first second show ?thesis by blast
qed

theorem random_joke_delegates_in_range_witness:
  "''radio'' \<in> set list_flavors \<and> (3::int) \<in> {3..7} \<and> (7::int) \<in> {3..7}
   \<and> (\<exists>w0. fst (random_joke_args w0) = Inr (''radio'', 3, 7))
   \<and> fst (random_joke_args \<lparr>draws = (\<lambda>i. 4 + 7 * i), requests = []\<rparr>) = Inr (''general'', 4, 6)"
proof -
  have a: "''radio'' \<in> set list_flavors" "(3::int) \<in> {3..7}" "(7::int) \<in> {3..7}"
    by (simp_all add: list_flavors_def FLAVORS_def)
  from random_joke_delegates_in_range
      [where w = "\<lparr>draws = (\<lambda>i. 4 + 7 * i), requests = []\<rparr>"] a
  have b: "\<exists>w0. fst (random_joke_args w0) = Inr (''radio'', 3, 7)"
    by blast
  have c: "fst (random_joke_args \<lparr>draws = (\<lambda>i. 4 + 7 * i), requests = []\<rparr>)
             = Inr (''general'', 4, 6)"
    by (simp add: random_joke_args_eq FLAVORS_def)
  from a b c show ?thesis by blast
qed

section \<open>Resolution of secrets\<close>

lemma upper_GEMINI: "upper U ''GEMINI_API_KEY'' = ''GEMINI_API_KEY''"
  by (simp add: str_eval)

lemma lower_GEMINI: "lower U ''GEMINI_API_KEY'' = ''gemini_api_key''"
  by (simp add: str_eval)

lemma lower_aws: "lower U ''aws'' = ''aws''"
  by (simp add: str_eval)

text \<open>
  The lookup of \<open>GEMINI_API_KEY\<close> as the configuration makes it (no platform, no secret
  name, no path, no prefix): the Doppler value when Doppler is enabled and holds a true
  value under that name, else the environment variable when it is set and not empty,
  else the default.
\<close>

lemma get_secret_gemini_api_key:
  "get_secret U s ''GEMINI_API_KEY'' None dflt None None None =
     (case (if truthy (getenv s ''DOPPLER_TOKEN'')
            then found (load_secrets_from_doppler U s None) ''GEMINI_API_KEY'' else None) of
        Some v \<Rightarrow> v
      | None \<Rightarrow>
          (case getenv s ''GEMINI_API_KEY'' of
             Some env_value \<Rightarrow> if env_value \<noteq> [] then PStr env_value else of_optional dflt
           | None \<Rightarrow> of_optional dflt))"
  by (simp add: get_secret_def get_secret_body_def env_key_of_def upper_GEMINI doppler_stage_def
        aws_stage_def vault_stage_def Let_def split: option.split)

lemma aws_environment_body:
  "get_secret_body U (aws_environment answer) ''GEMINI_API_KEY'' None dflt
       (Some ''prod/app'') None None =
     (case lookup (load_secrets_from_aws (aws_environment answer) ''prod/app'') ''gemini_api_key'' of
        Inl e \<Rightarrow> Inl e
      | Inr (Some v) \<Rightarrow> Inr v
      | Inr None \<Rightarrow> Inr (PStr ''from-env''))"
  by (simp add: get_secret_body_def env_key_of_def upper_GEMINI lower_GEMINI doppler_stage_def
        aws_stage_def vault_stage_def getenv_def getenv_default_def truthy_def lower_aws
        aws_environment_def Let_def
      split: sum.split option.split)

lemma env_key_sharp_s:
  "env_key_of example_unicode None (''stra'' @ [CHR 0xC3, CHR 0x9F] @ ''e'') = ''STRASSE''"
  by (simp add: env_key_of_def str_eval example_unicode_def)

text \<open>
  C7: the code at an AWS secret whose \<open>SecretString\<close> is JSON but not an object. With
  AWS enabled and the environment variable set, a payload that is the list
  \<open>["gemini_api_key"]\<close> passes the test \<open>key.lower() in aws_secrets\<close>, the subscript
  raises \<open>TypeError\<close>, the handler of line 269 returns the default, and the environment
  is never read; a payload that is a number raises at the test already. On the sibling
  paths the environment value is returned: a dictionary without the key, and a client
  call that raises (the loader then returns the empty dictionary). A dictionary that
  holds the key yields the AWS value.
\<close>

theorem malformed_aws_payload_skips_environment:
  "getenv (aws_environment (Returned (PList [PStr ''gemini_api_key'']))) ''GEMINI_API_KEY''
     = Some ''from-env''
   \<and> load_secrets_from_aws (aws_environment (Returned (PList [PStr ''gemini_api_key''])))
        ''prod/app'' = PList [PStr ''gemini_api_key'']
   \<and> get_secret_body U (aws_environment (Returned (PList [PStr ''gemini_api_key''])))
        ''GEMINI_API_KEY'' None (Some ''from-default'') (Some ''prod/app'') None None
       = Inl TypeError
   \<and> get_secret U (aws_environment (Returned (PList [PStr ''gemini_api_key''])))
        ''GEMINI_API_KEY'' None (Some ''from-default'') (Some ''prod/app'') None None
       = PStr ''from-default''
   \<and> get_secret U (aws_environment (Returned (PInt 5)))
        ''GEMINI_API_KEY'' None (Some ''from-default'') (Some ''prod/app'') None None
       = PStr ''from-default''
   \<and> get_secret U (aws_environment (Returned (PDict [])))
        ''GEMINI_API_KEY'' None (Some ''from-default'') (Some ''prod/app'') None None
       = PStr ''from-env''
   \<and> get_secret U (aws_environment Raised)
        ''GEMINI_API_KEY'' None (Some ''from-default'') (Some ''prod/app'') None None
       = PStr ''from-env''
   \<and> get_secret U (aws_environment (Returned (PDict [(''gemini_api_key'', PStr ''from-aws'')])))
        ''GEMINI_API_KEY'' None (Some ''from-default'') (Some ''prod/app'') None None
       = PStr ''from-aws''"
  by (simp add: get_secret_def aws_environment_body lookup_def load_secrets_from_aws_def
        of_optional_def)
     (simp add: aws_environment_def getenv_def of_optional_def)

end
